theory Spec2Isabelle
  imports Complex_Main "HOL-Library.Word"
begin

unbundle bit_operations_syntax

section \<open>The animated gradient background\<close>

text \<open>
  The repository holds two variants of one React component, \<^verbatim>\<open>GradientBackground\<close>:
  \<^item> \<^verbatim>\<open>src/components/GradientBackground.tsx\<close> tweens thirteen numeric camera and shader
    parameters of a \<^verbatim>\<open>ZoneConfig\<close>; its definitions carry the suffix \<open>_zone\<close>;
  \<^item> the second file tweens three colours and \<^verbatim>\<open>positionY\<close> of a \<^verbatim>\<open>SectionConfig\<close>;
    its definitions carry the suffix \<open>_section\<close>.

  A JavaScript \<^verbatim>\<open>number\<close> is modelled as a \<^typ>\<open>real\<close>: the arithmetic of the component's
  model is exact, and \<^verbatim>\<open>NaN\<close> and the infinities are left out. The rounding of IEEE
  doubles is modelled apart, in the subsection on double precision, for the one expression
  where it shows. The 32-bit integers of the bitwise operators are \<^typ>\<open>32 word\<close>. A string
  is a \<^typ>\<open>string\<close>.
\<close>

subsection \<open>The browser: animation frame callbacks\<close>

text \<open>
  The closure \<^verbatim>\<open>step\<close> created by one call of \<^verbatim>\<open>animateTo\<close> captures \<^verbatim>\<open>from\<close>,
  \<^verbatim>\<open>target\<close> and \<^verbatim>\<open>startTime\<close>.
\<close>

record 'p step_closure =
  cl_from :: 'p
  cl_target :: 'p
  cl_startTime :: real

text \<open>
  The state of a mounted component and of the part of the browser it talks to:
  the React state \<^verbatim>\<open>gradientProps\<close> (what the next render passes to the renderer), the two
  refs, the browser's list of pending animation frame callbacks with their handles, the
  browser's handle counter, and whether the \<^verbatim>\<open>gradient-transition\<close> listener is registered.
\<close>

record 'p component =
  gradientProps :: 'p
  currentRef :: 'p
  animFrameRef :: nat
  frameCallbacks :: "(nat \<times> 'p step_closure) list"
  frameHandle :: nat
  listening :: bool

text \<open>
  \<^verbatim>\<open>requestAnimationFrame\<close> increments the handle counter, appends the callback under the
  new handle and returns the handle, which is therefore never 0.
  \<^verbatim>\<open>cancelAnimationFrame\<close> removes the callback of a handle, if there is one.
\<close>

definition requestAnimationFrame ::
  "'p step_closure \<Rightarrow> 'p component \<Rightarrow> nat \<times> 'p component" where
  "requestAnimationFrame cl s =
     (let h = frameHandle s + 1
      in (h, s\<lparr>frameHandle := h, frameCallbacks := frameCallbacks s @ [(h, cl)]\<rparr>))"

definition cancelAnimationFrame :: "nat \<Rightarrow> 'p component \<Rightarrow> 'p component" where
  "cancelAnimationFrame h s =
     s\<lparr>frameCallbacks := filter (\<lambda>(h', cl). h' \<noteq> h) (frameCallbacks s)\<rparr>"

text \<open>
  Reading \<^verbatim>\<open>xs[i]\<close> for a number \<open>i\<close>: an element when \<open>i\<close> is an integer that indexes the
  array, \<^verbatim>\<open>undefined\<close> (here \<open>None\<close>) for every other number.
\<close>

definition array_get :: "'a list \<Rightarrow> real \<Rightarrow> 'a option" where
  "array_get xs i =
     (if of_int \<lfloor>i\<rfloor> = i \<and> 0 \<le> i \<and> nat \<lfloor>i\<rfloor> < length xs then Some (xs ! nat \<lfloor>i\<rfloor>) else None)"

text \<open>
  What happens to a mounted component: a \<^verbatim>\<open>gradient-transition\<close> event is dispatched with
  a \<^verbatim>\<open>zoneIndex\<close> (the second argument is what \<^verbatim>\<open>performance.now()\<close> returns in the
  handler), the browser runs an animation frame with a timestamp, or React unmounts the
  component.
\<close>

datatype event = GradientTransition real real | AnimationFrame real | Unmount

text \<open>A value of a JSX attribute.\<close>

datatype prop_value = Str string | Num real | Bool bool

subsection \<open>\<^verbatim>\<open>GradientBackground.tsx\<close>: zone configurations\<close>

datatype gradient_type = sphere | waterPlane

record ZoneConfig =
  cameraZoom :: real
  cAzimuthAngle :: real
  cPolarAngle :: real
  cDistance :: real
  rotationX :: real
  rotationY :: real
  rotationZ :: real
  positionX :: real
  fov :: real
  pixelDensity :: real
  uDensity :: real
  uSpeed :: real
  uStrength :: real
  type :: gradient_type

definition ZONE_CONFIGS :: "ZoneConfig list" where
  "ZONE_CONFIGS = [
     \<lparr>cameraZoom = 5, cAzimuthAngle = 160, cPolarAngle = 90, cDistance = 25 / 10,
      rotationX = 0, rotationY = 0, rotationZ = 0, positionX = - (29 / 10),
      fov = 45, pixelDensity = 13 / 10, uDensity = 3, uSpeed = 1 / 10, uStrength = 38 / 10,
      type = sphere\<rparr>,
     \<lparr>cameraZoom = 23 / 10, cAzimuthAngle = 180, cPolarAngle = 70, cDistance = 36 / 10,
      rotationX = 45, rotationY = 10, rotationZ = 50, positionX = - (26 / 10),
      fov = 45, pixelDensity = 13 / 10, uDensity = 3, uSpeed = 1 / 10, uStrength = 38 / 10,
      type = sphere\<rparr>,
     \<lparr>cameraZoom = 23 / 10, cAzimuthAngle = 180, cPolarAngle = 90, cDistance = 36 / 10,
      rotationX = 90, rotationY = 30, rotationZ = 100, positionX = - (34 / 10),
      fov = 45, pixelDensity = 13 / 10, uDensity = 3, uSpeed = 1 / 10, uStrength = 38 / 10,
      type = sphere\<rparr>,
     \<lparr>cameraZoom = 23 / 10, cAzimuthAngle = 180, cPolarAngle = 110, cDistance = 36 / 10,
      rotationX = 5, rotationY = 50, rotationZ = 30, positionX = - (26 / 10),
      fov = 45, pixelDensity = 13 / 10, uDensity = 3, uSpeed = 1 / 10, uStrength = 38 / 10,
      type = sphere\<rparr>,
     \<lparr>cameraZoom = 1, cAzimuthAngle = 180, cPolarAngle = 90, cDistance = 36 / 10,
      rotationX = 0, rotationY = 10, rotationZ = 50, positionX = - (14 / 10),
      fov = 50, pixelDensity = 1, uDensity = 13 / 10, uSpeed = 4 / 10, uStrength = 4,
      type = waterPlane\<rparr>]"

definition lerp_zone :: "real \<Rightarrow> real \<Rightarrow> real \<Rightarrow> real" where
  "lerp_zone a b t = a + (b - a) * t"

definition easeOutCubic_zone :: "real \<Rightarrow> real" where
  "easeOutCubic_zone t = 1 - (1 - t) ^ 3"

definition TRANSITION_DURATION_zone :: real where
  "TRANSITION_DURATION_zone = 700"

text \<open>The getters of the keys listed in \<^verbatim>\<open>numericKeys\<close>, in the order of the source.\<close>

definition numericKeys :: "(ZoneConfig \<Rightarrow> real) list" where
  "numericKeys = [cameraZoom, cAzimuthAngle, cPolarAngle, cDistance,
     rotationX, rotationY, rotationZ, positionX,
     fov, pixelDensity, uDensity, uSpeed, uStrength]"

text \<open>
  The object \<^verbatim>\<open>newProps\<close> that \<^verbatim>\<open>step\<close> builds: \<^verbatim>\<open>type\<close> is the target's, and the loop
  over \<^verbatim>\<open>numericKeys\<close> assigns each of the thirteen numeric keys.
\<close>

definition newProps_zone :: "ZoneConfig \<Rightarrow> ZoneConfig \<Rightarrow> real \<Rightarrow> ZoneConfig" where
  "newProps_zone from target t =
     \<lparr>cameraZoom = lerp_zone (cameraZoom from) (cameraZoom target) t,
      cAzimuthAngle = lerp_zone (cAzimuthAngle from) (cAzimuthAngle target) t,
      cPolarAngle = lerp_zone (cPolarAngle from) (cPolarAngle target) t,
      cDistance = lerp_zone (cDistance from) (cDistance target) t,
      rotationX = lerp_zone (rotationX from) (rotationX target) t,
      rotationY = lerp_zone (rotationY from) (rotationY target) t,
      rotationZ = lerp_zone (rotationZ from) (rotationZ target) t,
      positionX = lerp_zone (positionX from) (positionX target) t,
      fov = lerp_zone (fov from) (fov target) t,
      pixelDensity = lerp_zone (pixelDensity from) (pixelDensity target) t,
      uDensity = lerp_zone (uDensity from) (uDensity target) t,
      uSpeed = lerp_zone (uSpeed from) (uSpeed target) t,
      uStrength = lerp_zone (uStrength from) (uStrength target) t,
      type = type target\<rparr>"

text \<open>The local \<^verbatim>\<open>rawT\<close> of \<^verbatim>\<open>step\<close>, for the timestamp \<open>now\<close> of the frame.\<close>

definition rawT_zone :: "ZoneConfig step_closure \<Rightarrow> real \<Rightarrow> real" where
  "rawT_zone cl now = min ((now - cl_startTime cl) / TRANSITION_DURATION_zone) 1"

definition step_zone ::
  "ZoneConfig step_closure \<Rightarrow> real \<Rightarrow> ZoneConfig component \<Rightarrow> ZoneConfig component" where
  "step_zone cl now s =
     (let rawT = rawT_zone cl now;
          t = easeOutCubic_zone rawT;
          newProps = newProps_zone (cl_from cl) (cl_target cl) t;
          s1 = s\<lparr>currentRef := newProps, gradientProps := newProps\<rparr>
      in if rawT < 1
         then (let (h, s2) = requestAnimationFrame cl s1 in s2\<lparr>animFrameRef := h\<rparr>)
         else s1\<lparr>animFrameRef := 0\<rparr>)"

definition animateTo_zone ::
  "ZoneConfig \<Rightarrow> real \<Rightarrow> ZoneConfig component \<Rightarrow> ZoneConfig component" where
  "animateTo_zone target now s =
     (let s1 = (if animFrameRef s \<noteq> 0 then cancelAnimationFrame (animFrameRef s) s else s);
          cl = \<lparr>cl_from = currentRef s1, cl_target = target, cl_startTime = now\<rparr>;
          (h, s2) = requestAnimationFrame cl s1
      in s2\<lparr>animFrameRef := h\<rparr>)"

definition handleTransition_zone ::
  "real \<Rightarrow> real \<Rightarrow> ZoneConfig component \<Rightarrow> ZoneConfig component" where
  "handleTransition_zone zoneIndex now s =
     (case array_get ZONE_CONFIGS zoneIndex of
        Some config \<Rightarrow> animateTo_zone config now s
      | None \<Rightarrow> s)"

text \<open>The function the effect returns, run on unmount.\<close>

definition cleanup_zone :: "ZoneConfig component \<Rightarrow> ZoneConfig component" where
  "cleanup_zone s =
     (let s1 = s\<lparr>listening := False\<rparr>
      in if animFrameRef s1 \<noteq> 0 then cancelAnimationFrame (animFrameRef s1) s1 else s1)"

text \<open>
  An animation frame: the browser takes the handles pending when the frame starts and, for
  each that is still pending, removes its callback and calls it with the frame's timestamp.
\<close>

fun runCallbacks_zone ::
  "nat list \<Rightarrow> real \<Rightarrow> ZoneConfig component \<Rightarrow> ZoneConfig component" where
  "runCallbacks_zone [] now s = s"
| "runCallbacks_zone (h # hs) now s =
     (case map_of (frameCallbacks s) h of
        None \<Rightarrow> runCallbacks_zone hs now s
      | Some cl \<Rightarrow> runCallbacks_zone hs now (step_zone cl now (cancelAnimationFrame h s)))"

definition animationFrame_zone :: "real \<Rightarrow> ZoneConfig component \<Rightarrow> ZoneConfig component" where
  "animationFrame_zone now s = runCallbacks_zone (map fst (frameCallbacks s)) now s"

fun handle_zone :: "event \<Rightarrow> ZoneConfig component \<Rightarrow> ZoneConfig component" where
  "handle_zone (GradientTransition zoneIndex now) s =
     (if listening s then handleTransition_zone zoneIndex now s else s)"
| "handle_zone (AnimationFrame now) s = animationFrame_zone now s"
| "handle_zone Unmount s = (if listening s then cleanup_zone s else s)"

text \<open>The component after its first render and effect: both copies of zone 0, no frame pending.\<close>

definition mount_zone :: "ZoneConfig component" where
  "mount_zone =
     \<lparr>gradientProps = ZONE_CONFIGS ! 0, currentRef = ZONE_CONFIGS ! 0, animFrameRef = 0,
      frameCallbacks = [], frameHandle = 0, listening = True\<rparr>"

definition run_zone :: "event list \<Rightarrow> ZoneConfig component" where
  "run_zone evs = foldl (\<lambda>s e. handle_zone e s) mount_zone evs"

text \<open>The attributes the component passes to \<^verbatim>\<open>ShaderGradient\<close>, in the order of the source.\<close>

fun type_name :: "gradient_type \<Rightarrow> string" where
  "type_name sphere = ''sphere''"
| "type_name waterPlane = ''waterPlane''"

definition render_zone :: "ZoneConfig \<Rightarrow> (string \<times> prop_value) list" where
  "render_zone p =
     [(''animate'', Str ''on''), (''axesHelper'', Str ''off''),
      (''bgColor1'', Str ''#000000''), (''bgColor2'', Str ''#000000''),
      (''brightness'', Num (12 / 10)),
      (''cAzimuthAngle'', Num (cAzimuthAngle p)), (''cDistance'', Num (cDistance p)),
      (''cPolarAngle'', Num (cPolarAngle p)), (''cameraZoom'', Num (cameraZoom p)),
      (''color1'', Str ''#7b2cbf''), (''color2'', Str ''#d17db8''),
      (''color3'', Str ''#e6d0de''),
      (''destination'', Str ''onCanvas''), (''embedMode'', Str ''off''),
      (''envPreset'', Str ''city''), (''format'', Str ''gif''),
      (''fov'', Num (fov p)), (''frameRate'', Num 10), (''gizmoHelper'', Str ''hide''),
      (''grain'', Str ''on''), (''lightType'', Str ''3d''),
      (''pixelDensity'', Num (pixelDensity p)), (''positionX'', Num (positionX p)),
      (''positionY'', Num 0), (''positionZ'', Num 0),
      (''range'', Str ''disabled''), (''rangeEnd'', Num 40), (''rangeStart'', Num 0),
      (''reflection'', Num (1 / 10)),
      (''rotationX'', Num (rotationX p)), (''rotationY'', Num (rotationY p)),
      (''rotationZ'', Num (rotationZ p)),
      (''shader'', Str ''defaults''), (''type'', Str (type_name (type p))),
      (''uAmplitude'', Num 1), (''uDensity'', Num (uDensity p)),
      (''uFrequency'', Num (55 / 10)), (''uSpeed'', Num (uSpeed p)),
      (''uStrength'', Num (uStrength p)), (''uTime'', Num 0), (''wireframe'', Bool False)]"

subsection \<open>The second variant: section configurations\<close>

record SectionConfig =
  color1 :: string
  color2 :: string
  color3 :: string
  positionY :: real

definition SECTION_CONFIGS :: "SectionConfig list" where
  "SECTION_CONFIGS = [
     \<lparr>color1 = ''#ff5005'', color2 = ''#dbba95'', color3 = ''#d0bce1'', positionY = - (18 / 10)\<rparr>,
     \<lparr>color1 = ''#ff5005'', color2 = ''#dbba95'', color3 = ''#d0bce1'', positionY = - (18 / 10)\<rparr>,
     \<lparr>color1 = ''#0466c8'', color2 = ''#7ab8cc'', color3 = ''#c1d0c8'', positionY = - (6 / 10)\<rparr>,
     \<lparr>color1 = ''#2eab5e'', color2 = ''#a8d840'', color3 = ''#d2ebd8'', positionY = 6 / 10\<rparr>,
     \<lparr>color1 = ''#7b2cbf'', color2 = ''#d17db8'', color3 = ''#e6d0de'', positionY = 18 / 10\<rparr>]"

paragraph \<open>The library functions the colour code calls\<close>

text \<open>
  The value of a character as a digit of radix 16, in either case; \<open>None\<close> for any other
  character.
\<close>

definition digitValue :: "char \<Rightarrow> nat option" where
  "digitValue c =
     (let k = (of_char c :: nat)
      in if 48 \<le> k \<and> k \<le> 57 then Some (k - 48)
         else if 97 \<le> k \<and> k \<le> 102 then Some (k - 87)
         else if 65 \<le> k \<and> k \<le> 70 then Some (k - 55)
         else None)"

definition isWhiteSpace :: "char \<Rightarrow> bool" where
  "isWhiteSpace c = ((of_char c :: nat) \<in> {9, 10, 11, 12, 13, 32})"

text \<open>
  \<^verbatim>\<open>parseInt(s, 16)\<close>: leading white space is skipped, then a sign, then a prefix
  \<^verbatim>\<open>0x\<close> or \<^verbatim>\<open>0X\<close>; the longest run of hexadecimal digits that follows is the value;
  when that run is empty the result is \<^verbatim>\<open>NaN\<close>, here \<open>None\<close>. (Only the white space
  of ASCII is modelled, and the value is not rounded to a double.)
\<close>

definition parseInt16 :: "string \<Rightarrow> int option" where
  "parseInt16 s =
     (let s1 = dropWhile isWhiteSpace s;
          sign = (if take 1 s1 = ''-'' then - 1 else 1 :: int);
          s2 = (if take 1 s1 = ''-'' \<or> take 1 s1 = ''+'' then drop 1 s1 else s1);
          s3 = (if take 2 s2 = ''0x'' \<or> take 2 s2 = ''0X'' then drop 2 s2 else s2);
          z = takeWhile (\<lambda>c. digitValue c \<noteq> None) s3
      in if z = [] then None
         else Some (sign * int (foldl (\<lambda>n c. n * 16 + the (digitValue c)) 0 z)))"

text \<open>\<^verbatim>\<open>ToInt32\<close>, which every bitwise operator applies to its operands: \<^verbatim>\<open>NaN\<close> becomes 0.\<close>

definition ToInt32 :: "int option \<Rightarrow> 32 word" where
  "ToInt32 n = (case n of None \<Rightarrow> 0 | Some i \<Rightarrow> word_of_int i)"

text \<open>The number that a 32-bit result of a bitwise operator stands for.\<close>

definition int32_number :: "32 word \<Rightarrow> real" where
  "int32_number w = real_of_int (sint w)"

text \<open>\<^verbatim>\<open>Math.round\<close>: the nearest integer, a tie going up.\<close>

definition Math_round :: "real \<Rightarrow> int" where
  "Math_round x = \<lfloor>x + 1 / 2\<rfloor>"

definition hexDigit :: "nat \<Rightarrow> char" where
  "hexDigit d = ''0123456789abcdef'' ! d"

fun hexDigits :: "nat \<Rightarrow> string" where
  "hexDigits n = (if n < 16 then [hexDigit n] else hexDigits (n div 16) @ [hexDigit (n mod 16)])"

text \<open>\<^verbatim>\<open>toString(16)\<close> of an integer.\<close>

definition toString16 :: "int \<Rightarrow> string" where
  "toString16 i = (if i < 0 then CHR ''-'' # hexDigits (nat (- i)) else hexDigits (nat i))"

paragraph \<open>The colour code\<close>

definition hexToRgb :: "string \<Rightarrow> real \<times> real \<times> real" where
  "hexToRgb hex =
     (let n = parseInt16 (drop 1 hex)
      in (int32_number (signed_drop_bit 16 (ToInt32 n) AND 255),
          int32_number (signed_drop_bit 8 (ToInt32 n) AND 255),
          int32_number (ToInt32 n AND 255)))"

definition rgbToHex :: "real \<Rightarrow> real \<Rightarrow> real \<Rightarrow> string" where
  "rgbToHex r g b =
     ''#'' @
     drop 1 (toString16 (sint
       (((push_bit 24 (1 :: 32 word)
          OR push_bit 16 (ToInt32 (Some (Math_round r))))
         OR push_bit 8 (ToInt32 (Some (Math_round g))))
        OR ToInt32 (Some (Math_round b)))))"

definition lerpColor :: "string \<Rightarrow> string \<Rightarrow> real \<Rightarrow> string" where
  "lerpColor from to t =
     (let (r1, g1, b1) = hexToRgb from;
          (r2, g2, b2) = hexToRgb to
      in rgbToHex (r1 + (r2 - r1) * t) (g1 + (g2 - g1) * t) (b1 + (b2 - b1) * t))"

definition lerp_section :: "real \<Rightarrow> real \<Rightarrow> real \<Rightarrow> real" where
  "lerp_section a b t = a + (b - a) * t"

definition easeOutCubic_section :: "real \<Rightarrow> real" where
  "easeOutCubic_section t = 1 - (1 - t) ^ 3"

definition TRANSITION_DURATION_section :: real where
  "TRANSITION_DURATION_section = 700"

text \<open>The object \<^verbatim>\<open>newProps\<close> that \<^verbatim>\<open>step\<close> builds, and its local \<^verbatim>\<open>rawT\<close>.\<close>

definition newProps_section :: "SectionConfig \<Rightarrow> SectionConfig \<Rightarrow> real \<Rightarrow> SectionConfig" where
  "newProps_section from target t =
     \<lparr>color1 = lerpColor (color1 from) (color1 target) t,
      color2 = lerpColor (color2 from) (color2 target) t,
      color3 = lerpColor (color3 from) (color3 target) t,
      positionY = lerp_section (positionY from) (positionY target) t\<rparr>"

definition rawT_section :: "SectionConfig step_closure \<Rightarrow> real \<Rightarrow> real" where
  "rawT_section cl now = min ((now - cl_startTime cl) / TRANSITION_DURATION_section) 1"

definition step_section ::
  "SectionConfig step_closure \<Rightarrow> real \<Rightarrow> SectionConfig component \<Rightarrow> SectionConfig component"
  where
  "step_section cl now s =
     (let rawT = rawT_section cl now;
          t = easeOutCubic_section rawT;
          newProps = newProps_section (cl_from cl) (cl_target cl) t;
          s1 = s\<lparr>currentRef := newProps, gradientProps := newProps\<rparr>
      in if rawT < 1
         then (let (h, s2) = requestAnimationFrame cl s1 in s2\<lparr>animFrameRef := h\<rparr>)
         else s1\<lparr>animFrameRef := 0\<rparr>)"

definition animateTo_section ::
  "SectionConfig \<Rightarrow> real \<Rightarrow> SectionConfig component \<Rightarrow> SectionConfig component" where
  "animateTo_section target now s =
     (let s1 = (if animFrameRef s \<noteq> 0 then cancelAnimationFrame (animFrameRef s) s else s);
          cl = \<lparr>cl_from = currentRef s1, cl_target = target, cl_startTime = now\<rparr>;
          (h, s2) = requestAnimationFrame cl s1
      in s2\<lparr>animFrameRef := h\<rparr>)"

definition handleTransition_section ::
  "real \<Rightarrow> real \<Rightarrow> SectionConfig component \<Rightarrow> SectionConfig component" where
  "handleTransition_section zoneIndex now s =
     (case array_get SECTION_CONFIGS zoneIndex of
        Some config \<Rightarrow> animateTo_section config now s
      | None \<Rightarrow> s)"

definition cleanup_section :: "SectionConfig component \<Rightarrow> SectionConfig component" where
  "cleanup_section s =
     (let s1 = s\<lparr>listening := False\<rparr>
      in if animFrameRef s1 \<noteq> 0 then cancelAnimationFrame (animFrameRef s1) s1 else s1)"

fun runCallbacks_section ::
  "nat list \<Rightarrow> real \<Rightarrow> SectionConfig component \<Rightarrow> SectionConfig component" where
  "runCallbacks_section [] now s = s"
| "runCallbacks_section (h # hs) now s =
     (case map_of (frameCallbacks s) h of
        None \<Rightarrow> runCallbacks_section hs now s
      | Some cl \<Rightarrow> runCallbacks_section hs now (step_section cl now (cancelAnimationFrame h s)))"

definition animationFrame_section ::
  "real \<Rightarrow> SectionConfig component \<Rightarrow> SectionConfig component" where
  "animationFrame_section now s = runCallbacks_section (map fst (frameCallbacks s)) now s"

fun handle_section :: "event \<Rightarrow> SectionConfig component \<Rightarrow> SectionConfig component" where
  "handle_section (GradientTransition zoneIndex now) s =
     (if listening s then handleTransition_section zoneIndex now s else s)"
| "handle_section (AnimationFrame now) s = animationFrame_section now s"
| "handle_section Unmount s = (if listening s then cleanup_section s else s)"

definition mount_section :: "SectionConfig component" where
  "mount_section =
     \<lparr>gradientProps = SECTION_CONFIGS ! 0, currentRef = SECTION_CONFIGS ! 0, animFrameRef = 0,
      frameCallbacks = [], frameHandle = 0, listening = True\<rparr>"

definition run_section :: "event list \<Rightarrow> SectionConfig component" where
  "run_section evs = foldl (\<lambda>s e. handle_section e s) mount_section evs"

definition render_section :: "SectionConfig \<Rightarrow> (string \<times> prop_value) list" where
  "render_section p =
     [(''animate'', Str ''on''), (''axesHelper'', Str ''off''),
      (''bgColor1'', Str ''#000000''), (''bgColor2'', Str ''#000000''),
      (''brightness'', Num (12 / 10)),
      (''cAzimuthAngle'', Num 180), (''cDistance'', Num (36 / 10)),
      (''cPolarAngle'', Num 90), (''cameraZoom'', Num (23 / 10)),
      (''color1'', Str (color1 p)), (''color2'', Str (color2 p)),
      (''color3'', Str (color3 p)),
      (''destination'', Str ''onCanvas''), (''embedMode'', Str ''off''),
      (''envPreset'', Str ''city''), (''format'', Str ''gif''),
      (''fov'', Num 45), (''frameRate'', Num 10), (''gizmoHelper'', Str ''hide''),
      (''grain'', Str ''on''), (''lightType'', Str ''3d''),
      (''pixelDensity'', Num (13 / 10)), (''positionX'', Num (- (29 / 10))),
      (''positionY'', Num (positionY p)), (''positionZ'', Num 0),
      (''range'', Str ''disabled''), (''rangeEnd'', Num 40), (''rangeStart'', Num 0),
      (''reflection'', Num (1 / 10)),
      (''rotationX'', Num 0), (''rotationY'', Num 10), (''rotationZ'', Num 50),
      (''shader'', Str ''defaults''), (''type'', Str ''sphere''),
      (''uAmplitude'', Num 1), (''uDensity'', Num 3),
      (''uFrequency'', Num (55 / 10)), (''uSpeed'', Num (1 / 10)),
      (''uStrength'', Num (38 / 10)), (''uTime'', Num 0), (''wireframe'', Bool False)]"

text \<open>A colour string of the form \<^verbatim>\<open>#rrggbb\<close> with lowercase hexadecimal digits.\<close>

definition isLowerHex :: "char \<Rightarrow> bool" where
  "isLowerHex c = (c \<in> set ''0123456789abcdef'')"

definition wellFormedHex :: "string \<Rightarrow> bool" where
  "wellFormedHex h = (length h = 7 \<and> take 1 h = ''#'' \<and> list_all isLowerHex (drop 1 h))"

definition wellFormedColors :: "SectionConfig \<Rightarrow> bool" where
  "wellFormedColors p =
     (wellFormedHex (color1 p) \<and> wellFormedHex (color2 p) \<and> wellFormedHex (color3 p))"

text \<open>The two characters that \<^verbatim>\<open>toString(16)\<close> writes for a value below 256, zero-padded.\<close>

definition hexPair :: "nat \<Rightarrow> string" where
  "hexPair n = [hexDigit (n div 16), hexDigit (n mod 16)]"

subsection \<open>One animation in flight\<close>

text \<open>
  The invariant of the component: at most one frame callback is pending; a pending callback
  is the one whose handle \<^verbatim>\<open>animFrameRef\<close> holds, that handle is not 0 and the component is
  still mounted; and the ref \<^verbatim>\<open>currentRef\<close> holds what is rendered.
\<close>

definition single_flight :: "'p component \<Rightarrow> bool" where
  "single_flight s =
     ((case frameCallbacks s of
         [] \<Rightarrow> True
       | [(h, cl)] \<Rightarrow> h = animFrameRef s \<and> h \<noteq> 0 \<and> listening s
       | _ \<Rightarrow> False)
      \<and> currentRef s = gradientProps s)"

subsection \<open>The frame loop\<close>

text \<open>
  The browser keeps running animation frames while a callback is pending; \<open>clock k\<close> is the
  timestamp of the \<open>k\<close>-th frame. The loop returns the state in which no callback is pending,
  and does not return (\<open>None\<close>) when \<^verbatim>\<open>step\<close> schedules itself for ever.
\<close>

partial_function (option) frames_zone ::
  "(nat \<Rightarrow> real) \<Rightarrow> nat \<Rightarrow> ZoneConfig component \<Rightarrow> ZoneConfig component option" where
  "frames_zone clock k s =
     (if frameCallbacks s = [] then Some s
      else frames_zone clock (Suc k) (animationFrame_zone (clock k) s))"

partial_function (option) frames_section ::
  "(nat \<Rightarrow> real) \<Rightarrow> nat \<Rightarrow> SectionConfig component \<Rightarrow> SectionConfig component option" where
  "frames_section clock k s =
     (if frameCallbacks s = [] then Some s
      else frames_section clock (Suc k) (animationFrame_section (clock k) s))"

subsection \<open>Double precision\<close>

text \<open>
  The numbers of the program are IEEE 754 doubles. \<open>binary64 x\<close> is the double nearest to
  the real \<open>x\<close>: the significand has 53 bits, a tie goes to the even significand (overflow
  and subnormal numbers are left out). A numeric literal of the source stands for the
  \<open>binary64\<close> of its decimal value, and every arithmetic operation returns the \<open>binary64\<close>
  of the exact result; \<open>lerp_binary64\<close> is \<^verbatim>\<open>a + (b - a) * t\<close> evaluated so.
\<close>

definition roundTiesToEven :: "real \<Rightarrow> int" where
  "roundTiesToEven x =
     (let f = \<lfloor>x\<rfloor>; d = x - of_int f
      in if d < 1 / 2 then f else if 1 / 2 < d then f + 1 else if even f then f else f + 1)"

definition binary64 :: "real \<Rightarrow> real" where
  "binary64 x =
     (if x = 0 then 0
      else let e = \<lfloor>log 2 \<bar>x\<bar>\<rfloor>
           in of_int (roundTiesToEven (x * 2 powi (52 - e))) * 2 powi (e - 52))"

definition lerp_binary64 :: "real \<Rightarrow> real \<Rightarrow> real \<Rightarrow> real" where
  "lerp_binary64 a b t = binary64 (a + binary64 (binary64 (b - a) * t))"

section \<open>Properties\<close>

subsection \<open>Thirty-two bit arithmetic of the colour code\<close>

declare hexDigits.simps [simp del]

lemma and_255_take_bit: "(w :: 32 word) AND 255 = take_bit 8 w"
proof -
  have "(255 :: 32 word) = mask 8" by (simp add: mask_eq_exp_minus_1)
  then show ?thesis by (simp add: take_bit_eq_mask)
qed

lemma sint_small:
  fixes x :: int
  assumes "0 \<le> x" "x < 2 ^ 31"
  shows "sint (word_of_int x :: 32 word) = x"
proof -
  have "signed_take_bit 31 x = x"
    using assms by (intro signed_take_bit_int_eq_self) simp_all
  then show ?thesis by (simp add: sint_sbintrunc')
qed

lemma sint_take_bit_8: "sint (take_bit 8 (w :: 32 word)) = take_bit 8 (uint w)"
proof -
  have "take_bit 8 w = word_of_int (take_bit 8 (uint w))"
    by (simp add: of_int_take_bit)
  moreover have "take_bit 8 (uint w) < 2 ^ 8"
    by (rule take_bit_int_less_exp)
  then have "take_bit 8 (uint w) < 2 ^ 31" by simp
  ultimately show ?thesis
    using sint_small [of "take_bit 8 (uint w)"] by simp
qed

lemma channel_number:
  "int32_number (signed_drop_bit k (w :: 32 word) AND 255) =
     real_of_int (take_bit 8 (drop_bit k (sint w)))"
proof -
  have "uint (signed_drop_bit k w) = take_bit 32 (drop_bit k (sint w))"
    by (simp add: uint_sint sint_signed_drop_bit_eq)
  then show ?thesis
    by (simp add: int32_number_def and_255_take_bit sint_take_bit_8)
qed

lemma or_channels_take_bit:
  fixes R G B :: int
  shows "((push_bit 24 (1 :: int) OR push_bit 16 (take_bit 8 R)) OR push_bit 8 (take_bit 8 G))
       OR take_bit 8 B
     = 2 ^ 24 + take_bit 8 R * 2 ^ 16 + take_bit 8 G * 2 ^ 8 + take_bit 8 B"
proof -
  let ?r = "take_bit 8 R" and ?g = "take_bit 8 G" and ?b = "take_bit 8 B"
  have "(16777216 :: int) = 2 ^ 24" by simp
  then have [simp]: "bit (16777216 :: int) n \<longleftrightarrow> n = 24" for n
    by (simp only: bit_exp_iff) simp
  have 1: "push_bit 24 (1 :: int) + push_bit 16 ?r = push_bit 24 1 OR push_bit 16 ?r"
    by (rule disjunctive_add) (auto simp add: bit_simps)
  have 2: "(push_bit 24 (1 :: int) OR push_bit 16 ?r) + push_bit 8 ?g
      = (push_bit 24 1 OR push_bit 16 ?r) OR push_bit 8 ?g"
    by (rule disjunctive_add) (auto simp add: bit_simps)
  have 3: "((push_bit 24 (1 :: int) OR push_bit 16 ?r) OR push_bit 8 ?g) + ?b
      = ((push_bit 24 1 OR push_bit 16 ?r) OR push_bit 8 ?g) OR ?b"
    by (rule disjunctive_add) (auto simp add: bit_simps)
  have "((push_bit 24 (1 :: int) OR push_bit 16 ?r) OR push_bit 8 ?g) OR ?b
      = ((push_bit 24 1 + push_bit 16 ?r) + push_bit 8 ?g) + ?b"
    using 1 2 3 by presburger
  then show ?thesis
    by (simp add: push_bit_eq_mult)
qed

lemma or_channels_int:
  fixes R G B :: int
  assumes "0 \<le> R" "R \<le> 255" "0 \<le> G" "G \<le> 255" "0 \<le> B" "B \<le> 255"
  shows "((push_bit 24 (1 :: int) OR push_bit 16 R) OR push_bit 8 G) OR B
     = 2 ^ 24 + R * 2 ^ 16 + G * 2 ^ 8 + B"
proof -
  have "take_bit 8 R = R" "take_bit 8 G = G" "take_bit 8 B = B"
    using assms by (simp_all add: take_bit_int_eq_self)
  with or_channels_take_bit [of R G B] show ?thesis by simp
qed

lemma or_channels_word:
  fixes R G B :: int
  assumes "0 \<le> R" "R \<le> 255" "0 \<le> G" "G \<le> 255" "0 \<le> B" "B \<le> 255"
  shows "sint (((push_bit 24 (1 :: 32 word) OR push_bit 16 (word_of_int R))
           OR push_bit 8 (word_of_int G)) OR word_of_int B)
     = 2 ^ 24 + R * 2 ^ 16 + G * 2 ^ 8 + B"
proof -
  let ?X = "((push_bit 24 (1 :: int) OR push_bit 16 R) OR push_bit 8 G) OR B"
  have w: "((push_bit 24 (1 :: 32 word) OR push_bit 16 (word_of_int R))
       OR push_bit 8 (word_of_int G)) OR word_of_int B = word_of_int ?X"
    by (simp add: of_int_or_eq of_int_push_bit)
  have X: "?X = 2 ^ 24 + R * 2 ^ 16 + G * 2 ^ 8 + B"
    by (rule or_channels_int [OF assms])
  have "?X < 2 ^ 31" "0 \<le> ?X"
    using assms unfolding X by simp_all
  then have "sint (word_of_int ?X :: 32 word) = ?X"
    by (intro sint_small)
  then show ?thesis
    unfolding w X .
qed

lemma div_mod_digit:
  fixes a b k :: nat
  assumes "b < k"
  shows "(a * k + b) div k = a" "(a * k + b) mod k = b"
  using assms by simp_all

lemma channels_of_value:
  fixes R G B :: nat
  assumes "R < 256" "G < 256" "B < 256"
  shows "take_bit 8 (drop_bit 16 (int ((R * 256 + G) * 256 + B))) = int R"
    and "take_bit 8 (drop_bit 8 (int ((R * 256 + G) * 256 + B))) = int G"
    and "take_bit 8 (drop_bit 0 (int ((R * 256 + G) * 256 + B))) = int B"
proof -
  let ?v = "(R * 256 + G) * 256 + B"
  have 1: "?v div 256 = R * 256 + G" "?v mod 256 = B"
    by (rule div_mod_digit [OF assms(3)])+
  have 2: "(R * 256 + G) div 256 = R" "(R * 256 + G) mod 256 = G"
    by (rule div_mod_digit [OF assms(2)])+
  have "?v div 65536 = (?v div 256) div 256"
    by (simp only: div_mult2_eq [symmetric]) simp
  then have 3: "?v div 65536 = R"
    by (simp only: 1 2)
  have p: "(2 :: nat) ^ 8 = 256" "(2 :: nat) ^ 16 = 65536" "(2 :: nat) ^ 0 = 1"
    by simp_all
  have a: "take_bit 8 (drop_bit 16 ?v) = R"
    using assms(1) by (simp only: take_bit_eq_mod drop_bit_eq_div p 3 mod_less)
  have b: "take_bit 8 (drop_bit 8 ?v) = G"
    by (simp only: take_bit_eq_mod drop_bit_eq_div p 1 2)
  have c: "take_bit 8 (drop_bit 0 ?v) = B"
    by (simp only: take_bit_eq_mod drop_bit_eq_div p 1 div_by_1)
  have i: "take_bit 8 (drop_bit k (int ?v)) = int (take_bit 8 (drop_bit k ?v))" for k
    by (simp only: of_nat_take_bit of_nat_drop_bit)
  show "take_bit 8 (drop_bit 16 (int ?v)) = int R"
    by (simp only: i a)
  show "take_bit 8 (drop_bit 8 (int ?v)) = int G"
    by (simp only: i b)
  show "take_bit 8 (drop_bit 0 (int ?v)) = int B"
    by (simp only: i c)
qed

subsection \<open>Hexadecimal digits\<close>

lemma hexDigits_small: "n < 16 \<Longrightarrow> hexDigits n = [hexDigit n]"
  by (subst hexDigits.simps) simp

lemma hexDigits_snoc:
  assumes "0 < m" "d < 16"
  shows "hexDigits (m * 16 + d) = hexDigits m @ [hexDigit d]"
  using assms by (subst hexDigits.simps) simp

lemma hexDigits_foldl:
  assumes "0 < m" "list_all (\<lambda>d. d < 16) ds"
  shows "hexDigits (foldl (\<lambda>n d. n * 16 + d) m ds) = hexDigits m @ map hexDigit ds"
  using assms
proof (induction ds arbitrary: m)
  case Nil
  then show ?case by simp
next
  case (Cons d ds)
  then have "0 < m * 16 + d" by simp
  with Cons show ?case by (simp add: hexDigits_snoc)
qed

lemma hexDigits_rgb:
  assumes "R < 256" "G < 256" "B < 256"
  shows "hexDigits (2 ^ 24 + R * 2 ^ 16 + G * 2 ^ 8 + B) =
    CHR ''1'' # hexPair R @ hexPair G @ hexPair B"
proof -
  let ?ds = "[R div 16, R mod 16, G div 16, G mod 16, B div 16, B mod 16]"
  have eq: "2 ^ 24 + R * 2 ^ 16 + G * 2 ^ 8 + B = foldl (\<lambda>n d. n * 16 + d) 1 ?ds"
    by simp
  have "R div 16 < 16" "G div 16 < 16" "B div 16 < 16"
    using assms by presburger+
  then have "list_all (\<lambda>d. d < 16) ?ds"
    by simp
  then have "hexDigits (foldl (\<lambda>n d. n * 16 + d) 1 ?ds) = hexDigits 1 @ map hexDigit ?ds"
    by (intro hexDigits_foldl) simp_all
  then show ?thesis
    unfolding eq by (simp add: hexDigits_small hexPair_def hexDigit_def)
qed

lemma less_16_cases:
  assumes "d < (16 :: nat)"
  shows "d \<in> {0, 1, 2, 3, 4, 5, 6, 7, 8, 9, 10, 11, 12, 13, 14, 15}"
  using assms by simp arith

lemma digitValue_hexDigit: "d < 16 \<Longrightarrow> digitValue (hexDigit d) = Some d"
  by (drule less_16_cases) (auto simp add: digitValue_def hexDigit_def)

lemma isLowerHex_digit:
  assumes "isLowerHex c"
  shows "\<exists>d<16. digitValue c = Some d \<and> hexDigit d = c"
proof -
  from assms have "\<exists>d<length ''0123456789abcdef''. ''0123456789abcdef'' ! d = c"
    unfolding isLowerHex_def in_set_conv_nth .
  then obtain d where d: "d < length ''0123456789abcdef''" "''0123456789abcdef'' ! d = c"
    by blast
  then have "d < 16" "hexDigit d = c"
    by (simp_all add: hexDigit_def)
  then show ?thesis
    using digitValue_hexDigit [of d] by auto
qed

lemma isLowerHex_hexDigit: "d < 16 \<Longrightarrow> isLowerHex (hexDigit d)"
  by (drule less_16_cases) (auto simp add: isLowerHex_def hexDigit_def)

lemma isLowerHex_hexPair: "n < 256 \<Longrightarrow> list_all isLowerHex (hexPair n)"
  by (simp add: hexPair_def isLowerHex_hexDigit)

lemma hexPair_digits: "d < 16 \<Longrightarrow> e < 16 \<Longrightarrow> hexPair (d * 16 + e) = [hexDigit d, hexDigit e]"
  by (simp add: hexPair_def)

lemma Math_round_of_int: "Math_round (real_of_int k) = k"
  by (simp add: Math_round_def)

lemma Math_round_of_nat: "Math_round (real n) = int n"
  using Math_round_of_int [of "int n"] by simp

lemma rgbToHex_eq:
  assumes "0 \<le> Math_round r" "Math_round r \<le> 255" "0 \<le> Math_round g" "Math_round g \<le> 255"
    "0 \<le> Math_round b" "Math_round b \<le> 255"
  shows "rgbToHex r g b =
    CHR ''#'' # hexPair (nat (Math_round r)) @ hexPair (nat (Math_round g))
      @ hexPair (nat (Math_round b))"
proof -
  let ?R = "nat (Math_round r)" and ?G = "nat (Math_round g)" and ?B = "nat (Math_round b)"
  have "nat (2 ^ 24 + Math_round r * 2 ^ 16 + Math_round g * 2 ^ 8 + Math_round b)
      = 2 ^ 24 + ?R * 2 ^ 16 + ?G * 2 ^ 8 + ?B"
    using assms by (simp add: nat_add_distrib nat_mult_distrib)
  moreover have "?R < 256" "?G < 256" "?B < 256"
    using assms by simp_all
  ultimately have
    "hexDigits (nat (2 ^ 24 + Math_round r * 2 ^ 16 + Math_round g * 2 ^ 8 + Math_round b))
      = CHR ''1'' # hexPair ?R @ hexPair ?G @ hexPair ?B"
    by (simp only: hexDigits_rgb)
  then show ?thesis
    unfolding rgbToHex_def ToInt32_def option.case or_channels_word [OF assms] toString16_def
    using assms by simp
qed

lemma rgbToHex_nat:
  assumes "R < 256" "G < 256" "B < 256"
  shows "rgbToHex (real R) (real G) (real B) = CHR ''#'' # hexPair R @ hexPair G @ hexPair B"
  using assms rgbToHex_eq [of "real R" "real G" "real B"]
  by (simp add: Math_round_of_nat)

lemma wellFormedHex_rgbToHex:
  assumes "0 \<le> Math_round r" "Math_round r \<le> 255" "0 \<le> Math_round g" "Math_round g \<le> 255"
    "0 \<le> Math_round b" "Math_round b \<le> 255"
  shows "wellFormedHex (rgbToHex r g b)"
  using assms
  by (simp add: rgbToHex_eq wellFormedHex_def isLowerHex_hexPair) (simp add: hexPair_def)

subsection \<open>Parsing a well-formed colour\<close>

lemma isLowerHex_facts:
  assumes "isLowerHex c"
  shows "\<not> isWhiteSpace c" "c \<noteq> CHR ''-''" "c \<noteq> CHR ''+''" "c \<noteq> CHR ''x''"
    "c \<noteq> CHR ''X''" "digitValue c \<noteq> None"
  using assms unfolding isLowerHex_def
  by (auto simp add: digitValue_def isWhiteSpace_def)

lemma parseInt16_six:
  assumes "list_all isLowerHex [c1, c2, c3, c4, c5, c6]"
  shows "parseInt16 [c1, c2, c3, c4, c5, c6] =
    Some (int (foldl (\<lambda>n d. n * 16 + d) 0
      (map (the \<circ> digitValue) [c1, c2, c3, c4, c5, c6])))"
  using assms
  by (simp add: parseInt16_def isLowerHex_facts Let_def)

lemma wellFormedHex_cases:
  assumes "wellFormedHex h"
  obtains c1 c2 c3 c4 c5 c6 where "h = [CHR ''#'', c1, c2, c3, c4, c5, c6]"
    "list_all isLowerHex [c1, c2, c3, c4, c5, c6]"
proof -
  from assms have "length h = Suc (Suc (Suc (Suc (Suc (Suc (Suc 0))))))"
    by (simp add: wellFormedHex_def)
  then obtain c0 c1 c2 c3 c4 c5 c6 where h: "h = [c0, c1, c2, c3, c4, c5, c6]"
    by (auto simp add: length_Suc_conv)
  with assms that show thesis
    by (simp add: wellFormedHex_def)
qed

lemma wellFormed_roundtrip:
  assumes "wellFormedHex h"
  shows "\<exists>R G B. R < 256 \<and> G < 256 \<and> B < 256 \<and> hexToRgb h = (real R, real G, real B)
    \<and> rgbToHex (real R) (real G) (real B) = h"
proof -
  from assms obtain c1 c2 c3 c4 c5 c6 where h: "h = [CHR ''#'', c1, c2, c3, c4, c5, c6]"
    and low: "list_all isLowerHex [c1, c2, c3, c4, c5, c6]"
    by (rule wellFormedHex_cases)
  obtain d1 d2 d3 d4 d5 d6 where d:
    "digitValue c1 = Some d1" "d1 < 16" "digitValue c2 = Some d2" "d2 < 16"
    "digitValue c3 = Some d3" "d3 < 16" "digitValue c4 = Some d4" "d4 < 16"
    "digitValue c5 = Some d5" "d5 < 16" "digitValue c6 = Some d6" "d6 < 16"
    and c: "hexDigit d1 = c1" "hexDigit d2 = c2" "hexDigit d3 = c3" "hexDigit d4 = c4"
    "hexDigit d5 = c5" "hexDigit d6 = c6"
    using low by (auto dest!: isLowerHex_digit)
  let ?R = "d1 * 16 + d2" and ?G = "d3 * 16 + d4" and ?B = "d5 * 16 + d6"
  let ?v = "(?R * 256 + ?G) * 256 + ?B"
  have b: "?R < 256" "?G < 256" "?B < 256"
    using d by simp_all
  have p: "parseInt16 [c1, c2, c3, c4, c5, c6] = Some (int ?v)"
    using d by (simp add: parseInt16_six [OF low])
  have v: "0 \<le> int ?v" "int ?v < 2 ^ 31"
    using d by simp_all
  have s: "sint (word_of_int (int ?v) :: 32 word) = int ?v"
    by (rule sint_small [OF v])
  have n: "ToInt32 (parseInt16 (drop 1 h)) = word_of_int (int ?v)"
    by (simp only: h drop_Suc_Cons drop_0 One_nat_def p ToInt32_def option.case)
  have z: "int32_number (w AND 255) = real_of_int (take_bit 8 (drop_bit 0 (sint w)))"
    for w :: "32 word"
    using channel_number [of 0 w] by simp
  let ?w = "word_of_int (int ?v) :: 32 word"
  have "real_of_int (take_bit 8 (drop_bit 16 (sint ?w))) = real_of_int (int ?R)"
    "real_of_int (take_bit 8 (drop_bit 8 (sint ?w))) = real_of_int (int ?G)"
    "real_of_int (take_bit 8 (drop_bit 0 (sint ?w))) = real_of_int (int ?B)"
    by (simp_all only: s channels_of_value [OF b])
  then have "int32_number (signed_drop_bit 16 ?w AND 255) = real ?R"
    "int32_number (signed_drop_bit 8 ?w AND 255) = real ?G"
    "int32_number (?w AND 255) = real ?B"
    using channel_number [of 16 ?w] channel_number [of 8 ?w] z [of ?w]
    by simp_all
  then have "hexToRgb h = (real ?R, real ?G, real ?B)"
    by (simp only: hexToRgb_def Let_def n)
  moreover have "rgbToHex (real ?R) (real ?G) (real ?B) = h"
    unfolding rgbToHex_nat [OF b] using d c by (simp add: hexPair_digits h)
  ultimately show ?thesis
    using b by blast
qed

lemma hexToRgb_range:
  "\<exists>R G B. R < 256 \<and> G < 256 \<and> B < 256 \<and> hexToRgb h = (real R, real G, real B)"
proof -
  have t: "\<exists>n<256. real_of_int (take_bit 8 x) = real n" for x :: int
  proof -
    have "0 \<le> take_bit 8 x" "take_bit 8 x < 256"
      using take_bit_int_less_exp [of 8 x] by simp_all
    then have "nat (take_bit 8 x) < 256" "real_of_int (take_bit 8 x) = real (nat (take_bit 8 x))"
      by simp_all
    then show ?thesis by blast
  qed
  have z: "int32_number (w AND 255) = real_of_int (take_bit 8 (drop_bit 0 (sint w)))"
    for w :: "32 word"
    using channel_number [of 0 w] by simp
  show ?thesis
    unfolding hexToRgb_def Let_def channel_number z
    using t by (metis (no_types))
qed

subsection \<open>The endpoints of a colour interpolation\<close>

lemma lerpColor_zero:
  assumes "wellFormedHex from"
  shows "lerpColor from to 0 = from"
proof -
  obtain R G B where "hexToRgb from = (real R, real G, real B)"
    "rgbToHex (real R) (real G) (real B) = from"
    using wellFormed_roundtrip [OF assms] by blast
  moreover obtain R' G' B' where "hexToRgb to = (real R', real G', real B')"
    using hexToRgb_range [of to] by blast
  ultimately show ?thesis
    by (simp add: lerpColor_def)
qed

lemma lerpColor_one:
  assumes "wellFormedHex to"
  shows "lerpColor from to 1 = to"
proof -
  obtain R G B where "hexToRgb to = (real R, real G, real B)"
    "rgbToHex (real R) (real G) (real B) = to"
    using wellFormed_roundtrip [OF assms] by blast
  moreover obtain R' G' B' where "hexToRgb from = (real R', real G', real B')"
    using hexToRgb_range [of "from"] by blast
  ultimately show ?thesis
    by (simp add: lerpColor_def)
qed

lemma SECTION_CONFIGS_wellFormed: "list_all wellFormedColors SECTION_CONFIGS"
  by (simp add: SECTION_CONFIGS_def wellFormedColors_def wellFormedHex_def isLowerHex_def)

subsection \<open>The single-flight invariant\<close>

lemma array_get_eq:
  "array_get xs i = (if \<exists>n<length xs. i = real n then Some (xs ! nat \<lfloor>i\<rfloor>) else None)"
proof (cases "\<exists>n<length xs. i = real n")
  case True
  then obtain n where "n < length xs" "i = real n" by blast
  then show ?thesis by (auto simp add: array_get_def)
next
  case False
  have "\<not> (of_int \<lfloor>i\<rfloor> = i \<and> 0 \<le> i \<and> nat \<lfloor>i\<rfloor> < length xs)"
  proof
    assume a: "of_int \<lfloor>i\<rfloor> = i \<and> 0 \<le> i \<and> nat \<lfloor>i\<rfloor> < length xs"
    then have "real_of_int \<lfloor>i\<rfloor> = i" "0 \<le> i" "nat \<lfloor>i\<rfloor> < length xs"
      by blast+
    moreover from this have "real (nat \<lfloor>i\<rfloor>) = real_of_int \<lfloor>i\<rfloor>"
      by simp
    ultimately have "nat \<lfloor>i\<rfloor> < length xs \<and> i = real (nat \<lfloor>i\<rfloor>)"
      by linarith
    with False show False by blast
  qed
  with False show ?thesis by (simp add: array_get_def)
qed

lemma index_below_5: "(\<exists>n<5. i = real n) \<longleftrightarrow> i \<in> {0, 1, 2, 3, 4}"
proof
  assume "\<exists>n<5. i = real n"
  then obtain n :: nat where "n < 5" "i = real n" by blast
  moreover from this have "n \<in> {0, 1, 2, 3, 4}" by auto
  ultimately show "i \<in> {0, 1, 2, 3, 4}" by auto
next
  assume "i \<in> {0, 1, 2, 3, 4}"
  then have "nat \<lfloor>i\<rfloor> < 5 \<and> i = real (nat \<lfloor>i\<rfloor>)"
    by auto
  then show "\<exists>n<5. i = real n"
    by blast
qed

lemma single_flight_cases:
  assumes "single_flight s"
  obtains (idle) "frameCallbacks s = []" "currentRef s = gradientProps s"
  | (pending) cl where "frameCallbacks s = [(animFrameRef s, cl)]" "animFrameRef s \<noteq> 0"
      "listening s" "currentRef s = gradientProps s"
  using assms unfolding single_flight_def
  by (auto split: list.splits)

lemma single_flight_not_listening:
  "single_flight s \<Longrightarrow> \<not> listening s \<Longrightarrow> frameCallbacks s = []"
  by (erule single_flight_cases) simp_all

lemma single_flight_length: "single_flight s \<Longrightarrow> length (frameCallbacks s) \<le> 1"
  by (erule single_flight_cases) simp_all

subsection \<open>The callbacks of the zone variant\<close>

lemma step_zone_props:
  "gradientProps (step_zone cl now s) =
     newProps_zone (cl_from cl) (cl_target cl) (easeOutCubic_zone (rawT_zone cl now))"
  "currentRef (step_zone cl now s) =
     newProps_zone (cl_from cl) (cl_target cl) (easeOutCubic_zone (rawT_zone cl now))"
  "listening (step_zone cl now s) = listening s"
  by (simp_all add: step_zone_def Let_def requestAnimationFrame_def)

lemma rawT_zone_done:
  "cl_startTime cl + TRANSITION_DURATION_zone \<le> now \<Longrightarrow> rawT_zone cl now = 1"
  by (simp add: rawT_zone_def TRANSITION_DURATION_zone_def)

lemma rawT_zone_running:
  "now < cl_startTime cl + TRANSITION_DURATION_zone \<Longrightarrow> rawT_zone cl now < 1"
  by (simp add: rawT_zone_def TRANSITION_DURATION_zone_def)

lemma newProps_zone_one: "newProps_zone from target 1 = target"
  by (simp add: newProps_zone_def lerp_zone_def)

lemma step_zone_done:
  assumes "cl_startTime cl + TRANSITION_DURATION_zone \<le> now"
  shows "step_zone cl now s =
    s\<lparr>currentRef := cl_target cl, gradientProps := cl_target cl, animFrameRef := 0\<rparr>"
  using rawT_zone_done [OF assms]
  by (simp add: step_zone_def Let_def easeOutCubic_zone_def newProps_zone_one)

lemma step_zone_running:
  assumes "now < cl_startTime cl + TRANSITION_DURATION_zone"
  shows "frameCallbacks (step_zone cl now s) = frameCallbacks s @ [(frameHandle s + 1, cl)]"
    and "animFrameRef (step_zone cl now s) = frameHandle s + 1"
  using rawT_zone_running [OF assms]
  by (simp_all add: step_zone_def Let_def requestAnimationFrame_def)

lemma animateTo_zone_callbacks:
  assumes "single_flight s"
  shows "frameCallbacks (animateTo_zone target now s) =
    [(frameHandle s + 1, \<lparr>cl_from = currentRef s, cl_target = target, cl_startTime = now\<rparr>)]"
    and "animFrameRef (animateTo_zone target now s) = frameHandle s + 1"
    and "currentRef (animateTo_zone target now s) = currentRef s"
    and "gradientProps (animateTo_zone target now s) = gradientProps s"
    and "listening (animateTo_zone target now s) = listening s"
  using assms
  by (cases rule: single_flight_cases;
      simp add: animateTo_zone_def requestAnimationFrame_def cancelAnimationFrame_def Let_def)+

lemma animateTo_zone_single_flight:
  "single_flight s \<Longrightarrow> listening s \<Longrightarrow> single_flight (animateTo_zone target now s)"
  by (simp add: single_flight_def [of "animateTo_zone target now s"] animateTo_zone_callbacks)
    (simp add: single_flight_def)

lemma step_zone_single_flight:
  assumes "frameCallbacks s = []" "listening s"
  shows "single_flight (step_zone cl now s)"
  using assms
  by (simp add: single_flight_def step_zone_def requestAnimationFrame_def Let_def)

lemma animationFrame_zone_pending:
  assumes "frameCallbacks s = [(h, cl)]"
  shows "animationFrame_zone now s = step_zone cl now (s\<lparr>frameCallbacks := []\<rparr>)"
proof -
  have "cancelAnimationFrame h s = s\<lparr>frameCallbacks := []\<rparr>"
    using assms by (simp add: cancelAnimationFrame_def)
  then show ?thesis
    using assms by (simp add: animationFrame_zone_def)
qed

lemma animationFrame_zone_idle:
  "frameCallbacks s = [] \<Longrightarrow> animationFrame_zone now s = s"
  by (simp add: animationFrame_zone_def)

lemma animationFrame_zone_single_flight:
  assumes "single_flight s"
  shows "single_flight (animationFrame_zone now s)"
  using assms
proof (cases rule: single_flight_cases)
  case idle
  with assms show ?thesis by (simp add: animationFrame_zone_idle)
next
  case (pending cl)
  then show ?thesis
    by (simp add: animationFrame_zone_pending step_zone_single_flight)
qed

lemma cleanup_zone_callbacks:
  assumes "single_flight s"
  shows "frameCallbacks (cleanup_zone s) = []" "single_flight (cleanup_zone s)"
    "\<not> listening (cleanup_zone s)"
  using assms
  by (cases rule: single_flight_cases;
      simp add: cleanup_zone_def cancelAnimationFrame_def Let_def single_flight_def)+

lemma handle_zone_single_flight:
  assumes "single_flight s"
  shows "single_flight (handle_zone e s)"
proof (cases e)
  case (GradientTransition zi now)
  with assms show ?thesis
    by (simp add: handleTransition_zone_def animateTo_zone_single_flight split: option.splits)
next
  case (AnimationFrame now)
  with assms show ?thesis by (simp add: animationFrame_zone_single_flight)
next
  case Unmount
  with assms show ?thesis by (simp add: cleanup_zone_callbacks)
qed

lemma foldl_handle_zone_single_flight:
  "single_flight s \<Longrightarrow> single_flight (foldl (\<lambda>s e. handle_zone e s) s evs)"
  by (induction evs arbitrary: s) (simp_all add: handle_zone_single_flight)

lemma run_zone_single_flight: "single_flight (run_zone evs)"
  unfolding run_zone_def
  by (rule foldl_handle_zone_single_flight) (simp add: single_flight_def mount_zone_def)

lemma run_zone_snoc: "run_zone (evs @ [e]) = handle_zone e (run_zone evs)"
  by (simp add: run_zone_def)

lemma run_zone_unmount: "frameCallbacks (run_zone (evs @ [Unmount])) = []"
  using run_zone_single_flight [of evs]
  by (cases "listening (run_zone evs)")
     (simp_all add: run_zone_snoc cleanup_zone_callbacks single_flight_not_listening)

lemma frames_zone_terminates:
  assumes "frameCallbacks s = [(h, cl)]" "k \<le> n"
    "cl_startTime cl + TRANSITION_DURATION_zone \<le> clock n"
  shows "\<exists>s'. frames_zone clock k s = Some s' \<and> frameCallbacks s' = [] \<and> animFrameRef s' = 0
    \<and> currentRef s' = cl_target cl \<and> gradientProps s' = cl_target cl"
  using assms(1,2)
proof (induction d \<equiv> "n - k" arbitrary: k s h)
  case 0
  then have "k = n" by simp
  with assms(3) have fin: "cl_startTime cl + TRANSITION_DURATION_zone \<le> clock k"
    by simp
  let ?s' = "animationFrame_zone (clock k) s"
  have "frames_zone clock k s = frames_zone clock (Suc k) ?s'"
    using "0.prems"(1) by (subst frames_zone.simps) simp
  moreover have "frameCallbacks ?s' = []" "animFrameRef ?s' = 0"
    "currentRef ?s' = cl_target cl" "gradientProps ?s' = cl_target cl"
    using "0.prems"(1) by (simp_all add: animationFrame_zone_pending step_zone_done [OF fin])
  ultimately show ?case
    by (subst (asm) frames_zone.simps [of clock "Suc k"]) simp
next
  case (Suc d)
  let ?s' = "animationFrame_zone (clock k) s"
  have unfold: "frames_zone clock k s = frames_zone clock (Suc k) ?s'"
    using Suc.prems(1) by (subst frames_zone.simps) simp
  show ?case
  proof (cases "cl_startTime cl + TRANSITION_DURATION_zone \<le> clock k")
    case True
    have "frameCallbacks ?s' = []" "animFrameRef ?s' = 0"
      "currentRef ?s' = cl_target cl" "gradientProps ?s' = cl_target cl"
      using Suc.prems(1) by (simp_all add: animationFrame_zone_pending step_zone_done [OF True])
    with unfold show ?thesis
      by (subst (asm) frames_zone.simps [of clock "Suc k"]) simp
  next
    case False
    then have "clock k < cl_startTime cl + TRANSITION_DURATION_zone" by simp
    then have "frameCallbacks ?s' = [(frameHandle s + 1, cl)]"
      using Suc.prems(1) by (simp add: animationFrame_zone_pending step_zone_running)
    moreover have "d = n - Suc k" "Suc k \<le> n"
      using Suc.hyps(2) by simp_all
    ultimately show ?thesis
      unfolding unfold by (intro Suc.hyps(1))
  qed
qed

subsection \<open>The callbacks of the section variant\<close>

lemma step_section_props:
  "gradientProps (step_section cl now s) =
     newProps_section (cl_from cl) (cl_target cl) (easeOutCubic_section (rawT_section cl now))"
  "currentRef (step_section cl now s) =
     newProps_section (cl_from cl) (cl_target cl) (easeOutCubic_section (rawT_section cl now))"
  "listening (step_section cl now s) = listening s"
  by (simp_all add: step_section_def Let_def requestAnimationFrame_def)

lemma rawT_section_done:
  "cl_startTime cl + TRANSITION_DURATION_section \<le> now \<Longrightarrow> rawT_section cl now = 1"
  by (simp add: rawT_section_def TRANSITION_DURATION_section_def)

lemma rawT_section_running:
  "now < cl_startTime cl + TRANSITION_DURATION_section \<Longrightarrow> rawT_section cl now < 1"
  by (simp add: rawT_section_def TRANSITION_DURATION_section_def)

lemma newProps_section_one:
  "wellFormedColors target \<Longrightarrow> newProps_section from target 1 = target"
  by (simp add: newProps_section_def lerp_section_def lerpColor_one wellFormedColors_def)

lemma step_section_done:
  assumes "cl_startTime cl + TRANSITION_DURATION_section \<le> now"
    and "wellFormedColors (cl_target cl)"
  shows "step_section cl now s =
    s\<lparr>currentRef := cl_target cl, gradientProps := cl_target cl, animFrameRef := 0\<rparr>"
  using rawT_section_done [OF assms(1)] assms(2)
  by (simp add: step_section_def Let_def easeOutCubic_section_def newProps_section_one)

lemma step_section_running:
  assumes "now < cl_startTime cl + TRANSITION_DURATION_section"
  shows "frameCallbacks (step_section cl now s) = frameCallbacks s @ [(frameHandle s + 1, cl)]"
    and "animFrameRef (step_section cl now s) = frameHandle s + 1"
  using rawT_section_running [OF assms]
  by (simp_all add: step_section_def Let_def requestAnimationFrame_def)

lemma animateTo_section_callbacks:
  assumes "single_flight s"
  shows "frameCallbacks (animateTo_section target now s) =
    [(frameHandle s + 1, \<lparr>cl_from = currentRef s, cl_target = target, cl_startTime = now\<rparr>)]"
    and "animFrameRef (animateTo_section target now s) = frameHandle s + 1"
    and "currentRef (animateTo_section target now s) = currentRef s"
    and "gradientProps (animateTo_section target now s) = gradientProps s"
    and "listening (animateTo_section target now s) = listening s"
  using assms
  by (cases rule: single_flight_cases;
      simp add: animateTo_section_def requestAnimationFrame_def cancelAnimationFrame_def Let_def)+

lemma animateTo_section_single_flight:
  "single_flight s \<Longrightarrow> listening s \<Longrightarrow> single_flight (animateTo_section target now s)"
  by (simp add: single_flight_def [of "animateTo_section target now s"] animateTo_section_callbacks)
    (simp add: single_flight_def)

lemma step_section_single_flight:
  assumes "frameCallbacks s = []" "listening s"
  shows "single_flight (step_section cl now s)"
  using assms
  by (simp add: single_flight_def step_section_def requestAnimationFrame_def Let_def)

lemma animationFrame_section_pending:
  assumes "frameCallbacks s = [(h, cl)]"
  shows "animationFrame_section now s = step_section cl now (s\<lparr>frameCallbacks := []\<rparr>)"
proof -
  have "cancelAnimationFrame h s = s\<lparr>frameCallbacks := []\<rparr>"
    using assms by (simp add: cancelAnimationFrame_def)
  then show ?thesis
    using assms by (simp add: animationFrame_section_def)
qed

lemma animationFrame_section_idle:
  "frameCallbacks s = [] \<Longrightarrow> animationFrame_section now s = s"
  by (simp add: animationFrame_section_def)

lemma animationFrame_section_single_flight:
  assumes "single_flight s"
  shows "single_flight (animationFrame_section now s)"
  using assms
proof (cases rule: single_flight_cases)
  case idle
  with assms show ?thesis by (simp add: animationFrame_section_idle)
next
  case (pending cl)
  then show ?thesis
    by (simp add: animationFrame_section_pending step_section_single_flight)
qed

lemma cleanup_section_callbacks:
  assumes "single_flight s"
  shows "frameCallbacks (cleanup_section s) = []" "single_flight (cleanup_section s)"
    "\<not> listening (cleanup_section s)"
  using assms
  by (cases rule: single_flight_cases;
      simp add: cleanup_section_def cancelAnimationFrame_def Let_def single_flight_def)+

lemma handle_section_single_flight:
  assumes "single_flight s"
  shows "single_flight (handle_section e s)"
proof (cases e)
  case (GradientTransition zi now)
  with assms show ?thesis
    by (simp add: handleTransition_section_def animateTo_section_single_flight split: option.splits)
next
  case (AnimationFrame now)
  with assms show ?thesis by (simp add: animationFrame_section_single_flight)
next
  case Unmount
  with assms show ?thesis by (simp add: cleanup_section_callbacks)
qed

lemma foldl_handle_section_single_flight:
  "single_flight s \<Longrightarrow> single_flight (foldl (\<lambda>s e. handle_section e s) s evs)"
  by (induction evs arbitrary: s) (simp_all add: handle_section_single_flight)

lemma run_section_single_flight: "single_flight (run_section evs)"
  unfolding run_section_def
  by (rule foldl_handle_section_single_flight) (simp add: single_flight_def mount_section_def)

lemma run_section_snoc: "run_section (evs @ [e]) = handle_section e (run_section evs)"
  by (simp add: run_section_def)

lemma run_section_unmount: "frameCallbacks (run_section (evs @ [Unmount])) = []"
  using run_section_single_flight [of evs]
  by (cases "listening (run_section evs)")
     (simp_all add: run_section_snoc cleanup_section_callbacks single_flight_not_listening)

lemma frames_section_terminates:
  assumes "frameCallbacks s = [(h, cl)]" "k \<le> n"
    "cl_startTime cl + TRANSITION_DURATION_section \<le> clock n"
    "wellFormedColors (cl_target cl)"
  shows "\<exists>s'. frames_section clock k s = Some s' \<and> frameCallbacks s' = [] \<and> animFrameRef s' = 0
    \<and> currentRef s' = cl_target cl \<and> gradientProps s' = cl_target cl"
  using assms(1,2)
proof (induction d \<equiv> "n - k" arbitrary: k s h)
  case 0
  then have "k = n" by simp
  with assms(3) have fin: "cl_startTime cl + TRANSITION_DURATION_section \<le> clock k"
    by simp
  let ?s' = "animationFrame_section (clock k) s"
  have "frames_section clock k s = frames_section clock (Suc k) ?s'"
    using "0.prems"(1) by (subst frames_section.simps) simp
  moreover have "frameCallbacks ?s' = []" "animFrameRef ?s' = 0"
    "currentRef ?s' = cl_target cl" "gradientProps ?s' = cl_target cl"
    using "0.prems"(1) by (simp_all add: animationFrame_section_pending step_section_done [OF fin assms(4)])
  ultimately show ?case
    by (subst (asm) frames_section.simps [of clock "Suc k"]) simp
next
  case (Suc d)
  let ?s' = "animationFrame_section (clock k) s"
  have unfold: "frames_section clock k s = frames_section clock (Suc k) ?s'"
    using Suc.prems(1) by (subst frames_section.simps) simp
  show ?case
  proof (cases "cl_startTime cl + TRANSITION_DURATION_section \<le> clock k")
    case True
    have "frameCallbacks ?s' = []" "animFrameRef ?s' = 0"
      "currentRef ?s' = cl_target cl" "gradientProps ?s' = cl_target cl"
      using Suc.prems(1) by (simp_all add: animationFrame_section_pending step_section_done [OF True assms(4)])
    with unfold show ?thesis
      by (subst (asm) frames_section.simps [of clock "Suc k"]) simp
  next
    case False
    then have "clock k < cl_startTime cl + TRANSITION_DURATION_section" by simp
    then have "frameCallbacks ?s' = [(frameHandle s + 1, cl)]"
      using Suc.prems(1) by (simp add: animationFrame_section_pending step_section_running)
    moreover have "d = n - Suc k" "Suc k \<le> n"
      using Suc.hyps(2) by simp_all
    ultimately show ?thesis
      unfolding unfold by (intro Suc.hyps(1))
  qed
qed

subsection \<open>Easing and linear interpolation\<close>

lemma easeOutCubic_zone_mono: "x \<le> y \<Longrightarrow> easeOutCubic_zone x \<le> easeOutCubic_zone y"
  unfolding easeOutCubic_zone_def
  by (simp add: power_mono_odd)

lemma easeOutCubic_zone_range:
  "0 \<le> x \<Longrightarrow> x \<le> 1 \<Longrightarrow> 0 \<le> easeOutCubic_zone x \<and> easeOutCubic_zone x \<le> 1"
  unfolding easeOutCubic_zone_def
  by (simp add: power_le_one)

lemma lerp_zone_between:
  assumes "0 \<le> t" "t \<le> 1"
  shows "min a b \<le> lerp_zone a b t \<and> lerp_zone a b t \<le> max a b"
proof (cases "a \<le> b")
  case True
  then have "0 \<le> (b - a) * t" "(b - a) * t \<le> b - a"
    using assms by (simp_all add: mult_left_le)
  then show ?thesis using True by (simp add: lerp_zone_def)
next
  case False
  then have "0 \<le> (a - b) * t" "(a - b) * t \<le> a - b"
    using assms by (simp_all add: mult_left_le)
  then show ?thesis using False by (simp add: lerp_zone_def algebra_simps)
qed

lemma rawT_zone_range: "cl_startTime cl \<le> now \<Longrightarrow> 0 \<le> rawT_zone cl now \<and> rawT_zone cl now \<le> 1"
  by (simp add: rawT_zone_def TRANSITION_DURATION_zone_def)

lemma rawT_section_range:
  "cl_startTime cl \<le> now \<Longrightarrow> 0 \<le> rawT_section cl now \<and> rawT_section cl now \<le> 1"
  by (simp add: rawT_section_def TRANSITION_DURATION_section_def)

lemma same_functions:
  "lerp_zone = lerp_section" "easeOutCubic_zone = easeOutCubic_section"
  by (auto simp add: fun_eq_iff lerp_zone_def lerp_section_def easeOutCubic_zone_def
      easeOutCubic_section_def)

text \<open>
  C1. At every step of a transition, each numeric parameter that is rendered is
  \<open>from + (target - from) * easeOutCubic (min (e / 700) 1)\<close>, where \<open>e = now - startTime\<close>
  is the time elapsed since the transition started, and \<open>from\<close> and \<open>target\<close> are the
  parameter sets the transition captured: the thirteen keys of \<^verbatim>\<open>numericKeys\<close> in
  \<^verbatim>\<open>GradientBackground.tsx\<close>, \<^verbatim>\<open>positionY\<close> in the second variant. It holds for every
  \<open>e\<close>, so also for \<open>e \<ge> 0\<close>.
\<close>

theorem step_renders_eased_lerp:
  "map (\<lambda>k. k (gradientProps (step_zone cl now s))) numericKeys =
     map (\<lambda>k. k (cl_from cl) + (k (cl_target cl) - k (cl_from cl))
           * (1 - (1 - min ((now - cl_startTime cl) / 700) 1) ^ 3)) numericKeys
   \<and> positionY (gradientProps (step_section cl' now' s')) =
     positionY (cl_from cl') + (positionY (cl_target cl') - positionY (cl_from cl'))
       * (1 - (1 - min ((now' - cl_startTime cl') / 700) 1) ^ 3)"
  by (simp add: step_zone_props step_section_props numericKeys_def newProps_zone_def
      newProps_section_def lerp_zone_def lerp_section_def easeOutCubic_zone_def
      easeOutCubic_section_def rawT_zone_def rawT_section_def TRANSITION_DURATION_zone_def
      TRANSITION_DURATION_section_def)

text \<open>
  C7. The two files define the same \<^verbatim>\<open>lerp\<close> and the same \<^verbatim>\<open>easeOutCubic\<close>, as functions
  on the reals, and both set \<^verbatim>\<open>TRANSITION_DURATION\<close> to 700.
\<close>

theorem variants_agree:
  "lerp_zone = lerp_section \<and> easeOutCubic_zone = easeOutCubic_section
   \<and> TRANSITION_DURATION_zone = 700 \<and> TRANSITION_DURATION_section = 700"
  by (simp add: fun_eq_iff lerp_zone_def lerp_section_def easeOutCubic_zone_def
      easeOutCubic_section_def TRANSITION_DURATION_zone_def TRANSITION_DURATION_section_def)

text \<open>
  C10, in exact arithmetic. When the elapsed time is not negative, \<^verbatim>\<open>rawT\<close> lies in
  \<open>[0, 1]\<close>; \<^verbatim>\<open>easeOutCubic\<close> is 0 at 0 and 1 at 1, and on \<open>[0, 1]\<close> it is monotone with
  values in \<open>[0, 1]\<close>; so the exact value of every \<^verbatim>\<open>lerp(from, target, t)\<close> of a step lies
  between the smaller and the larger of \<open>from\<close> and \<open>target\<close>. (Rounded to doubles, a value
  can pass an endpoint by a rounding error: see the subsection on rounding.)
\<close>

theorem interpolation_within_endpoints:
  assumes "cl_startTime cl \<le> now" and "cl_startTime cl' \<le> now'"
    and "0 \<le> x" and "x \<le> y" and "y \<le> 1"
  shows "0 \<le> rawT_zone cl now \<and> rawT_zone cl now \<le> 1
    \<and> 0 \<le> rawT_section cl' now' \<and> rawT_section cl' now' \<le> 1
    \<and> easeOutCubic_zone 0 = 0 \<and> easeOutCubic_zone 1 = 1
    \<and> easeOutCubic_section 0 = 0 \<and> easeOutCubic_section 1 = 1
    \<and> 0 \<le> easeOutCubic_zone x \<and> easeOutCubic_zone x \<le> easeOutCubic_zone y
    \<and> easeOutCubic_zone y \<le> 1
    \<and> 0 \<le> easeOutCubic_section x \<and> easeOutCubic_section x \<le> easeOutCubic_section y
    \<and> easeOutCubic_section y \<le> 1
    \<and> list_all (\<lambda>k. min (k (cl_from cl)) (k (cl_target cl)) \<le> k (currentRef (step_zone cl now s))
          \<and> k (currentRef (step_zone cl now s)) \<le> max (k (cl_from cl)) (k (cl_target cl)))
        numericKeys
    \<and> min (positionY (cl_from cl')) (positionY (cl_target cl'))
        \<le> positionY (currentRef (step_section cl' now' s'))
    \<and> positionY (currentRef (step_section cl' now' s'))
        \<le> max (positionY (cl_from cl')) (positionY (cl_target cl'))"
proof -
  have r: "0 \<le> rawT_zone cl now \<and> rawT_zone cl now \<le> 1"
    by (rule rawT_zone_range [OF assms(1)])
  have r': "0 \<le> rawT_section cl' now' \<and> rawT_section cl' now' \<le> 1"
    by (rule rawT_section_range [OF assms(2)])
  have e: "easeOutCubic_zone 0 = 0 \<and> easeOutCubic_zone 1 = 1"
    by (simp add: easeOutCubic_zone_def)
  have m: "0 \<le> easeOutCubic_zone x \<and> easeOutCubic_zone x \<le> easeOutCubic_zone y
      \<and> easeOutCubic_zone y \<le> 1"
    using assms(3-5) easeOutCubic_zone_mono [of x y] easeOutCubic_zone_range [of x]
      easeOutCubic_zone_range [of y]
    by simp
  let ?t = "easeOutCubic_zone (rawT_zone cl now)"
  have t: "0 \<le> ?t" "?t \<le> 1"
    using r easeOutCubic_zone_range by simp_all
  have z: "list_all (\<lambda>k. min (k (cl_from cl)) (k (cl_target cl)) \<le> k (currentRef (step_zone cl now s))
          \<and> k (currentRef (step_zone cl now s)) \<le> max (k (cl_from cl)) (k (cl_target cl)))
        numericKeys"
    unfolding step_zone_props numericKeys_def newProps_zone_def
    using lerp_zone_between [OF t] by simp
  let ?t' = "easeOutCubic_zone (rawT_section cl' now')"
  have t': "0 \<le> ?t'" "?t' \<le> 1"
    using r' easeOutCubic_zone_range by simp_all
  have p: "min (positionY (cl_from cl')) (positionY (cl_target cl'))
        \<le> positionY (currentRef (step_section cl' now' s'))
    \<and> positionY (currentRef (step_section cl' now' s'))
        \<le> max (positionY (cl_from cl')) (positionY (cl_target cl'))"
    unfolding step_section_props newProps_section_def same_functions [symmetric]
    using lerp_zone_between [OF t'] by simp
  from r r' e m z p show ?thesis
    unfolding same_functions [symmetric] by blast
qed

theorem interpolation_within_endpoints_witness:
  "(0 :: real) \<le> 350 \<and> (0 :: real) \<le> 1 / 4 \<and> (1 / 4 :: real) \<le> 1 / 2 \<and> (1 / 2 :: real) \<le> 1
   \<and> rawT_zone \<lparr>cl_from = ZONE_CONFIGS ! 0, cl_target = ZONE_CONFIGS ! 4, cl_startTime = 0\<rparr> 350
       \<le> 1
   \<and> easeOutCubic_zone (1 / 4) \<le> easeOutCubic_zone (1 / 2)
   \<and> positionY (currentRef (step_section
         \<lparr>cl_from = SECTION_CONFIGS ! 1, cl_target = SECTION_CONFIGS ! 2, cl_startTime = 0\<rparr>
         350 mount_section)) \<le> - (6 / 10)"
proof -
  let ?cl = "\<lparr>cl_from = ZONE_CONFIGS ! 0, cl_target = ZONE_CONFIGS ! 4, cl_startTime = 0\<rparr>"
  let ?cl' = "\<lparr>cl_from = SECTION_CONFIGS ! 1, cl_target = SECTION_CONFIGS ! 2, cl_startTime = 0\<rparr>"
  have h: "cl_startTime ?cl \<le> 350" "cl_startTime ?cl' \<le> 350"
    "(0 :: real) \<le> 1 / 4" "(1 / 4 :: real) \<le> 1 / 2" "(1 / 2 :: real) \<le> 1"
    by simp_all
  from interpolation_within_endpoints [OF h, of mount_zone mount_section]
  have "rawT_zone ?cl 350 \<le> 1" "easeOutCubic_zone (1 / 4) \<le> easeOutCubic_zone (1 / 2)"
    "positionY (currentRef (step_section ?cl' 350 mount_section))
        \<le> max (positionY (cl_from ?cl')) (positionY (cl_target ?cl'))"
    by blast+
  then show ?thesis
    by (simp add: SECTION_CONFIGS_def)
qed

subsection \<open>Zone selection\<close>

lemma array_get_ZONE_CONFIGS:
  "array_get ZONE_CONFIGS zi =
     (if zi \<in> {0, 1, 2, 3, 4} then Some (ZONE_CONFIGS ! nat \<lfloor>zi\<rfloor>) else None)"
proof -
  have "length ZONE_CONFIGS = 5" by (simp add: ZONE_CONFIGS_def)
  then show ?thesis
    by (simp only: array_get_eq index_below_5)
qed

lemma array_get_SECTION_CONFIGS:
  "array_get SECTION_CONFIGS zi =
     (if zi \<in> {0, 1, 2, 3, 4} then Some (SECTION_CONFIGS ! nat \<lfloor>zi\<rfloor>) else None)"
proof -
  have "length SECTION_CONFIGS = 5" by (simp add: SECTION_CONFIGS_def)
  then show ?thesis
    by (simp only: array_get_eq index_below_5)
qed

lemma animateTo_zone_schedules: "frameCallbacks (animateTo_zone target now s) \<noteq> []"
  by (simp add: animateTo_zone_def requestAnimationFrame_def cancelAnimationFrame_def Let_def)

lemma animateTo_section_schedules: "frameCallbacks (animateTo_section target now s) \<noteq> []"
  by (simp add: animateTo_section_def requestAnimationFrame_def cancelAnimationFrame_def Let_def)

text \<open>
  C5. A \<^verbatim>\<open>gradient-transition\<close> event whose \<^verbatim>\<open>zoneIndex\<close> is not one of 0, 1, 2, 3, 4
  (negative, 5 or more, or not an integer) leaves the whole state as it is: no animation
  starts and nothing that is rendered changes. A \<^verbatim>\<open>zoneIndex\<close> from 0 to 4 selects that
  entry of the table as the target and starts a transition, which schedules a frame. In
  both variants.
\<close>

theorem invalid_zone_index_ignored:
  "handleTransition_zone zi now s =
     (if zi \<in> {0, 1, 2, 3, 4} then animateTo_zone (ZONE_CONFIGS ! nat \<lfloor>zi\<rfloor>) now s else s)
   \<and> handle_zone (GradientTransition zi now) s =
     (if listening s \<and> zi \<in> {0, 1, 2, 3, 4}
      then animateTo_zone (ZONE_CONFIGS ! nat \<lfloor>zi\<rfloor>) now s else s)
   \<and> frameCallbacks (animateTo_zone target now s) \<noteq> []
   \<and> handleTransition_section zi now s' =
     (if zi \<in> {0, 1, 2, 3, 4} then animateTo_section (SECTION_CONFIGS ! nat \<lfloor>zi\<rfloor>) now s'
      else s')
   \<and> handle_section (GradientTransition zi now) s' =
     (if listening s' \<and> zi \<in> {0, 1, 2, 3, 4}
      then animateTo_section (SECTION_CONFIGS ! nat \<lfloor>zi\<rfloor>) now s' else s')
   \<and> frameCallbacks (animateTo_section target' now s') \<noteq> []"
  by (simp add: handleTransition_zone_def handleTransition_section_def
      array_get_ZONE_CONFIGS array_get_SECTION_CONFIGS animateTo_zone_schedules
      animateTo_section_schedules)

subsection \<open>Scheduling\<close>

text \<open>
  C4. At most one animation is in flight. After any sequence of events at most one frame
  callback is pending; when a transition starts in such a state, the only pending callback
  afterwards is the new one, so the previous one was cancelled; and after an unmount no
  callback is pending. In both variants.
\<close>

theorem one_animation_in_flight:
  "length (frameCallbacks (run_zone evs)) \<le> 1
   \<and> frameCallbacks (animateTo_zone target now (run_zone evs)) =
       [(frameHandle (run_zone evs) + 1,
         \<lparr>cl_from = currentRef (run_zone evs), cl_target = target, cl_startTime = now\<rparr>)]
   \<and> frameCallbacks (run_zone (evs @ [Unmount])) = []
   \<and> length (frameCallbacks (run_section evs)) \<le> 1
   \<and> frameCallbacks (animateTo_section target' now (run_section evs)) =
       [(frameHandle (run_section evs) + 1,
         \<lparr>cl_from = currentRef (run_section evs), cl_target = target', cl_startTime = now\<rparr>)]
   \<and> frameCallbacks (run_section (evs @ [Unmount])) = []"
proof -
  note z = run_zone_single_flight [of evs] and s = run_section_single_flight [of evs]
  show ?thesis
    by (intro conjI single_flight_length [OF z] single_flight_length [OF s]
        animateTo_zone_callbacks(1) [OF z] animateTo_section_callbacks(1) [OF s]
        run_zone_unmount run_section_unmount)
qed

text \<open>
  C6. A transition starts from what is current when it is triggered. After a step,
  \<^verbatim>\<open>currentRef.current\<close> is the parameter set the step rendered; after any sequence of
  events it is the rendered parameter set; and the \<^verbatim>\<open>from\<close> that \<^verbatim>\<open>animateTo\<close> captures is
  that set. So a zone change that arrives in the middle of an animation interpolates from
  the values in flight: changing to zone 2 at 360 ms, after a frame at 350 ms of a
  transition from zone 0 to zone 4, starts from a camera zoom of 3/2, which is neither
  zone 0's 5 nor zone 4's 1.
\<close>

theorem transition_starts_from_current:
  "currentRef (step_zone cl now s) = gradientProps (step_zone cl now s)
   \<and> currentRef (run_zone evs) = gradientProps (run_zone evs)
   \<and> map (cl_from \<circ> snd) (frameCallbacks (animateTo_zone target now (run_zone evs))) =
       [gradientProps (run_zone evs)]
   \<and> currentRef (step_section cl' now s') = gradientProps (step_section cl' now s')
   \<and> currentRef (run_section evs) = gradientProps (run_section evs)
   \<and> map (cl_from \<circ> snd) (frameCallbacks (animateTo_section target' now (run_section evs))) =
       [gradientProps (run_section evs)]
   \<and> map (cameraZoom \<circ> cl_from \<circ> snd) (frameCallbacks
        (run_zone [GradientTransition 4 0, AnimationFrame 350, GradientTransition 2 360])) =
       [3 / 2]"
proof -
  have z: "currentRef (run_zone evs) = gradientProps (run_zone evs)"
    using run_zone_single_flight [of evs] by (simp add: single_flight_def)
  have s: "currentRef (run_section evs) = gradientProps (run_section evs)"
    using run_section_single_flight [of evs] by (simp add: single_flight_def)
  let ?evs = "[GradientTransition 4 0, AnimationFrame 350]"
  have 1: "run_zone [GradientTransition 4 0, AnimationFrame 350, GradientTransition 2 360]
      = animateTo_zone (ZONE_CONFIGS ! 2) 360 (run_zone ?evs)"
    using run_zone_single_flight [of "[GradientTransition 4 0]"]
    by (simp add: run_zone_snoc [of ?evs, simplified] run_zone_snoc [of "[GradientTransition 4 0]", simplified]
        handleTransition_zone_def array_get_ZONE_CONFIGS
        animationFrame_zone_single_flight step_zone_props
        animationFrame_zone_def run_zone_def mount_zone_def animateTo_zone_def
        requestAnimationFrame_def cancelAnimationFrame_def Let_def)
  have 2: "gradientProps (run_zone ?evs) =
      newProps_zone (ZONE_CONFIGS ! 0) (ZONE_CONFIGS ! 4) (easeOutCubic_zone (1 / 2))"
    by (simp add: run_zone_def mount_zone_def handleTransition_zone_def array_get_ZONE_CONFIGS
        animateTo_zone_def requestAnimationFrame_def cancelAnimationFrame_def Let_def
        animationFrame_zone_def step_zone_props rawT_zone_def TRANSITION_DURATION_zone_def)
  have 3: "cameraZoom (newProps_zone (ZONE_CONFIGS ! 0) (ZONE_CONFIGS ! 4)
      (easeOutCubic_zone (1 / 2))) = 3 / 2"
    by (simp add: newProps_zone_def ZONE_CONFIGS_def lerp_zone_def easeOutCubic_zone_def
        power3_eq_cube)
  have "map (cl_from \<circ> snd) (frameCallbacks
        (run_zone [GradientTransition 4 0, AnimationFrame 350, GradientTransition 2 360])) =
       [gradientProps (run_zone ?evs)]"
    unfolding 1 using run_zone_single_flight [of ?evs]
    by (simp add: animateTo_zone_callbacks single_flight_def)
  then have "map cameraZoom (map (cl_from \<circ> snd) (frameCallbacks
        (run_zone [GradientTransition 4 0, AnimationFrame 350, GradientTransition 2 360]))) =
       [3 / 2]"
    by (simp only: 2 3 list.map)
  then have "map (cameraZoom \<circ> cl_from \<circ> snd) (frameCallbacks
        (run_zone [GradientTransition 4 0, AnimationFrame 350, GradientTransition 2 360])) =
       [3 / 2]"
    by (simp only: map_map comp_assoc)
  then show ?thesis
    using z s run_zone_single_flight [of evs] run_section_single_flight [of evs]
    by (simp add: step_zone_props step_section_props animateTo_zone_callbacks
        animateTo_section_callbacks)
qed

subsection \<open>Completion of a transition\<close>

text \<open>
  C3, in exact arithmetic. Once the elapsed time reaches \<^verbatim>\<open>TRANSITION_DURATION\<close> (700 ms),
  \<^verbatim>\<open>rawT\<close> is 1, the step schedules no further frame and resets \<^verbatim>\<open>animFrameRef\<close> to 0,
  and every parameter it renders is \<open>from + (target - from) * 1\<close>, which is the target: a
  numeric parameter by its exact value, a colour as the string itself (for a target whose
  colours have the form \<^verbatim>\<open>#rrggbb\<close>, as every entry of the table has). So the frame loop
  of a transition returns once a frame's timestamp reaches the start time plus 700, with
  nothing pending and the target rendered. (Rounded to doubles, a numeric parameter can
  miss its target by a rounding error: see the subsection on rounding.)
\<close>

theorem transition_completes:
  assumes "frameCallbacks s = [(h, cl)]" and "k \<le> n"
    and "cl_startTime cl + TRANSITION_DURATION_zone \<le> clock n"
    and "frameCallbacks s' = [(h', cl')]" and "k' \<le> n'"
    and "cl_startTime cl' + TRANSITION_DURATION_section \<le> clock' n'"
    and "cl_target cl' \<in> set SECTION_CONFIGS"
  shows "rawT_zone cl (clock n) = 1
    \<and> step_zone cl (clock n) s0 =
        s0\<lparr>currentRef := cl_target cl, gradientProps := cl_target cl, animFrameRef := 0\<rparr>
    \<and> (\<exists>t. frames_zone clock k s = Some t \<and> frameCallbacks t = [] \<and> animFrameRef t = 0
          \<and> currentRef t = cl_target cl \<and> gradientProps t = cl_target cl)
    \<and> rawT_section cl' (clock' n') = 1
    \<and> step_section cl' (clock' n') s0' =
        s0'\<lparr>currentRef := cl_target cl', gradientProps := cl_target cl', animFrameRef := 0\<rparr>
    \<and> (\<exists>t. frames_section clock' k' s' = Some t \<and> frameCallbacks t = [] \<and> animFrameRef t = 0
          \<and> currentRef t = cl_target cl' \<and> gradientProps t = cl_target cl')"
proof -
  have w: "wellFormedColors (cl_target cl')"
    using assms(7) SECTION_CONFIGS_wellFormed by (simp add: list_all_iff)
  note z = frames_zone_terminates [where clock = clock and n = n, OF assms(1-3)]
  note s = frames_section_terminates [where clock = clock' and n = n', OF assms(4-6) w]
  show ?thesis
    by (intro conjI rawT_zone_done [OF assms(3)] step_zone_done [OF assms(3)] z
        rawT_section_done [OF assms(6)] step_section_done [OF assms(6) w] s)
qed

theorem transition_completes_witness:
  "(\<exists>t. frames_zone (\<lambda>k. 250 * real k) 0 (animateTo_zone (ZONE_CONFIGS ! 4) 0 mount_zone) = Some t
      \<and> frameCallbacks t = [] \<and> animFrameRef t = 0 \<and> gradientProps t = ZONE_CONFIGS ! 4)
   \<and> (\<exists>t. frames_section (\<lambda>k. 250 * real k) 0
        (animateTo_section (SECTION_CONFIGS ! 4) 0 mount_section) = Some t
      \<and> frameCallbacks t = [] \<and> animFrameRef t = 0 \<and> gradientProps t = SECTION_CONFIGS ! 4)"
proof -
  let ?cl = "\<lparr>cl_from = ZONE_CONFIGS ! 0, cl_target = ZONE_CONFIGS ! 4, cl_startTime = 0\<rparr>"
  let ?cl' = "\<lparr>cl_from = SECTION_CONFIGS ! 0, cl_target = SECTION_CONFIGS ! 4, cl_startTime = 0\<rparr>"
  let ?clock = "\<lambda>k. 250 * real k"
  have 1: "frameCallbacks (animateTo_zone (ZONE_CONFIGS ! 4) 0 mount_zone) = [(1, ?cl)]"
    by (simp add: animateTo_zone_def mount_zone_def requestAnimationFrame_def Let_def)
  have 2: "(0 :: nat) \<le> 3" by simp
  have 3: "cl_startTime ?cl + TRANSITION_DURATION_zone \<le> ?clock 3"
    by (simp add: TRANSITION_DURATION_zone_def)
  have 4: "frameCallbacks (animateTo_section (SECTION_CONFIGS ! 4) 0 mount_section) = [(1, ?cl')]"
    by (simp add: animateTo_section_def mount_section_def requestAnimationFrame_def Let_def)
  have 6: "cl_startTime ?cl' + TRANSITION_DURATION_section \<le> ?clock 3"
    by (simp add: TRANSITION_DURATION_section_def)
  have 7: "cl_target ?cl' \<in> set SECTION_CONFIGS"
    by (simp add: SECTION_CONFIGS_def)
  from transition_completes [where clock = ?clock and n = 3 and clock' = ?clock and n' = 3
      and ?s0.0 = mount_zone and s0' = mount_section, OF 1 2 3 4 2 6 7]
  show ?thesis
    by simp blast
qed

subsection \<open>Colour strings\<close>

text \<open>
  C8. For a colour string \<open>h\<close> of the form \<^verbatim>\<open>#rrggbb\<close> with lowercase hexadecimal digits,
  \<^verbatim>\<open>rgbToHex\<close> of the three channels of \<^verbatim>\<open>hexToRgb(h)\<close> is \<open>h\<close>. So, for such \<open>from\<close> and
  \<open>to\<close>, \<^verbatim>\<open>lerpColor(from, to, 0)\<close> is \<open>from\<close> and \<^verbatim>\<open>lerpColor(from, to, 1)\<close> is \<open>to\<close>.
\<close>

theorem hex_roundtrip:
  assumes "wellFormedHex h" and "wellFormedHex from" and "wellFormedHex to"
  shows "(case hexToRgb h of (r, g, b) \<Rightarrow> rgbToHex r g b) = h
    \<and> lerpColor from to 0 = from \<and> lerpColor from to 1 = to"
proof -
  obtain R G B where "hexToRgb h = (real R, real G, real B)"
    "rgbToHex (real R) (real G) (real B) = h"
    using wellFormed_roundtrip [OF assms(1)] by blast
  then have "(case hexToRgb h of (r, g, b) \<Rightarrow> rgbToHex r g b) = h"
    by simp
  then show ?thesis
    using lerpColor_zero [OF assms(2)] lerpColor_one [OF assms(3)] by simp
qed

theorem hex_roundtrip_witness:
  "wellFormedHex ''#7ab8cc'' \<and> wellFormedHex ''#ff5005'' \<and> wellFormedHex ''#0466c8''
   \<and> (case hexToRgb ''#7ab8cc'' of (r, g, b) \<Rightarrow> rgbToHex r g b) = ''#7ab8cc''
   \<and> lerpColor ''#ff5005'' ''#0466c8'' 0 = ''#ff5005''
   \<and> lerpColor ''#ff5005'' ''#0466c8'' 1 = ''#0466c8''"
proof -
  have h: "wellFormedHex ''#7ab8cc''" "wellFormedHex ''#ff5005''" "wellFormedHex ''#0466c8''"
    by (simp_all add: wellFormedHex_def isLowerHex_def)
  from hex_roundtrip [OF h] h show ?thesis
    by blast
qed

text \<open>
  C9. When the rounded values of \<open>r\<close>, \<open>g\<close> and \<open>b\<close> lie in \<open>[0, 255]\<close>, \<^verbatim>\<open>rgbToHex\<close> returns
  seven characters: \<^verbatim>\<open>#\<close> and six hexadecimal digits, two for each channel, a channel
  below 16 with a leading zero. The number that is converted is \<open>2 ^ 24\<close> plus the three
  channels, whose seven digits start with the 1 that \<^verbatim>\<open>slice(1)\<close> removes.
\<close>

theorem rgbToHex_seven_chars:
  assumes "0 \<le> Math_round r" and "Math_round r \<le> 255"
    and "0 \<le> Math_round g" and "Math_round g \<le> 255"
    and "0 \<le> Math_round b" and "Math_round b \<le> 255"
  shows "length (rgbToHex r g b) = 7
    \<and> take 1 (rgbToHex r g b) = ''#''
    \<and> list_all isLowerHex (drop 1 (rgbToHex r g b))
    \<and> rgbToHex r g b = CHR ''#'' # hexPair (nat (Math_round r)) @ hexPair (nat (Math_round g))
        @ hexPair (nat (Math_round b))
    \<and> toString16 (sint (((push_bit 24 (1 :: 32 word)
          OR push_bit 16 (ToInt32 (Some (Math_round r))))
         OR push_bit 8 (ToInt32 (Some (Math_round g))))
        OR ToInt32 (Some (Math_round b))))
      = CHR ''1'' # hexPair (nat (Math_round r)) @ hexPair (nat (Math_round g))
        @ hexPair (nat (Math_round b))"
proof -
  let ?R = "nat (Math_round r)" and ?G = "nat (Math_round g)" and ?B = "nat (Math_round b)"
  have w: "wellFormedHex (rgbToHex r g b)"
    by (rule wellFormedHex_rgbToHex [OF assms])
  have e: "rgbToHex r g b = CHR ''#'' # hexPair ?R @ hexPair ?G @ hexPair ?B"
    by (rule rgbToHex_eq [OF assms])
  have "nat (2 ^ 24 + Math_round r * 2 ^ 16 + Math_round g * 2 ^ 8 + Math_round b)
      = 2 ^ 24 + ?R * 2 ^ 16 + ?G * 2 ^ 8 + ?B"
    using assms by (simp add: nat_add_distrib nat_mult_distrib)
  moreover have "?R < 256" "?G < 256" "?B < 256"
    using assms by simp_all
  ultimately have
    "hexDigits (nat (2 ^ 24 + Math_round r * 2 ^ 16 + Math_round g * 2 ^ 8 + Math_round b))
      = CHR ''1'' # hexPair ?R @ hexPair ?G @ hexPair ?B"
    by (simp only: hexDigits_rgb)
  then have t: "toString16 (sint (((push_bit 24 (1 :: 32 word)
          OR push_bit 16 (ToInt32 (Some (Math_round r))))
         OR push_bit 8 (ToInt32 (Some (Math_round g))))
        OR ToInt32 (Some (Math_round b))))
      = CHR ''1'' # hexPair ?R @ hexPair ?G @ hexPair ?B"
    unfolding ToInt32_def option.case or_channels_word [OF assms] toString16_def
    using assms by simp
  from w have "length (rgbToHex r g b) = 7" "take 1 (rgbToHex r g b) = ''#''"
    "list_all isLowerHex (drop 1 (rgbToHex r g b))"
    unfolding wellFormedHex_def by blast+
  with e t show ?thesis
    by (intro conjI)
qed

theorem rgbToHex_seven_chars_witness:
  "(0 :: int) \<le> Math_round (299 / 100) \<and> Math_round (299 / 100) \<le> 255
   \<and> 0 \<le> Math_round 0 \<and> Math_round 0 \<le> 255
   \<and> 0 \<le> Math_round (509 / 2) \<and> Math_round (509 / 2) \<le> 255
   \<and> rgbToHex (299 / 100) 0 (509 / 2) = ''#0300ff''
   \<and> length (rgbToHex (299 / 100) 0 (509 / 2)) = 7"
proof -
  have r: "Math_round (299 / 100) = 3" "Math_round 0 = 0" "Math_round (509 / 2) = 255"
    by (simp_all add: Math_round_def)
  have h: "0 \<le> Math_round (299 / 100)" "Math_round (299 / 100) \<le> 255"
    "0 \<le> Math_round 0" "Math_round 0 \<le> 255"
    "0 \<le> Math_round (509 / 2)" "Math_round (509 / 2) \<le> 255"
    by (simp_all add: r)
  from rgbToHex_seven_chars [OF h] have "length (rgbToHex (299 / 100) 0 (509 / 2)) = 7"
    "rgbToHex (299 / 100) 0 (509 / 2) = CHR ''#'' # hexPair (nat (Math_round (299 / 100)))
       @ hexPair (nat (Math_round 0)) @ hexPair (nat (Math_round (509 / 2)))"
    by blast+
  then show ?thesis
    using h by (simp add: r hexPair_def hexDigit_def)
qed

subsection \<open>What a zone change interpolates\<close>

lemma render_zone_fixed:
  "map (map_of (render_zone p)) [''type'', ''color1'', ''color2'', ''color3''] =
     [Some (Str (type_name (type p))), Some (Str ''#7b2cbf''), Some (Str ''#d17db8''),
      Some (Str ''#e6d0de'')]"
  by (simp add: render_zone_def)

lemma render_zone_numeric:
  "map (map_of (render_zone p))
     [''cameraZoom'', ''cAzimuthAngle'', ''cPolarAngle'', ''cDistance'', ''rotationX'',
      ''rotationY'', ''rotationZ'', ''positionX'', ''fov'', ''pixelDensity'', ''uDensity'',
      ''uSpeed'', ''uStrength''] =
     map (\<lambda>k. Some (Num (k p))) numericKeys"
  by (simp add: render_zone_def numericKeys_def)

lemma render_section_tweened:
  "map (map_of (render_section p)) [''color1'', ''color2'', ''color3'', ''positionY''] =
     [Some (Str (color1 p)), Some (Str (color2 p)), Some (Str (color3 p)),
      Some (Num (positionY p))]"
  by (simp add: render_section_def)

lemma render_section_fixed:
  "map (map_of (render_section p))
     [''cameraZoom'', ''cAzimuthAngle'', ''cPolarAngle'', ''cDistance'', ''rotationX'',
      ''rotationY'', ''rotationZ'', ''positionX'', ''fov'', ''pixelDensity'', ''uDensity'',
      ''uSpeed'', ''uStrength'', ''type''] =
     [Some (Num (23 / 10)), Some (Num 180), Some (Num 90), Some (Num (36 / 10)), Some (Num 0),
      Some (Num 10), Some (Num 50), Some (Num (- (29 / 10))), Some (Num 45),
      Some (Num (13 / 10)), Some (Num 3), Some (Num (1 / 10)), Some (Num (38 / 10)),
      Some (Str ''sphere'')]"
  by (simp add: render_section_def)

lemma run_zone_first_frame:
  "gradientProps (run_zone [GradientTransition 4 0, AnimationFrame now]) =
     newProps_zone (ZONE_CONFIGS ! 0) (ZONE_CONFIGS ! 4)
       (easeOutCubic_zone (min (now / 700) 1))"
  by (simp add: run_zone_def mount_zone_def handleTransition_zone_def array_get_ZONE_CONFIGS
      animateTo_zone_def requestAnimationFrame_def cancelAnimationFrame_def Let_def
      animationFrame_zone_def step_zone_props rawT_zone_def TRANSITION_DURATION_zone_def)

lemma run_section_first_frame:
  "gradientProps (run_section [GradientTransition 4 0, AnimationFrame now]) =
     newProps_section (SECTION_CONFIGS ! 0) (SECTION_CONFIGS ! 4)
       (easeOutCubic_section (min (now / 700) 1))"
  by (simp add: run_section_def mount_section_def handleTransition_section_def
      array_get_SECTION_CONFIGS animateTo_section_def requestAnimationFrame_def
      cancelAnimationFrame_def Let_def animationFrame_section_def step_section_props
      rawT_section_def TRANSITION_DURATION_section_def)

lemma rgbToHex_value:
  assumes "Math_round r = int R" "Math_round g = int G" "Math_round b = int B"
    and "R < 256" "G < 256" "B < 256"
  shows "rgbToHex r g b = CHR ''#'' # hexPair R @ hexPair G @ hexPair B"
  using assms rgbToHex_eq [of r g b] by simp

lemma hexToRgb_table:
  "hexToRgb ''#ff5005'' = (255, 80, 5)" "hexToRgb ''#7b2cbf'' = (123, 44, 191)"
  "hexToRgb ''#dbba95'' = (219, 186, 149)" "hexToRgb ''#d17db8'' = (209, 125, 184)"
  "hexToRgb ''#d0bce1'' = (208, 188, 225)" "hexToRgb ''#e6d0de'' = (230, 208, 222)"
  by (simp_all add: hexToRgb_def parseInt16_def ToInt32_def digitValue_def isWhiteSpace_def
      int32_number_def)

lemma rgbToHex_midway:
  "rgbToHex (279 / 2) (97 / 2) (671 / 4) = ''#8c31a8''"
  "rgbToHex (841 / 4) (1061 / 8) (1437 / 8) = ''#d285b4''"
  "rgbToHex (909 / 4) (411 / 2) (1779 / 8) = ''#e3cede''"
proof -
  have r: "Math_round (279 / 2) = int 140" "Math_round (97 / 2) = int 49"
    "Math_round (671 / 4) = int 168" "Math_round (841 / 4) = int 210"
    "Math_round (1061 / 8) = int 133" "Math_round (1437 / 8) = int 180"
    "Math_round (909 / 4) = int 227" "Math_round (411 / 2) = int 206"
    "Math_round (1779 / 8) = int 222"
    by (simp_all add: Math_round_def)
  show "rgbToHex (279 / 2) (97 / 2) (671 / 4) = ''#8c31a8''"
    by (subst rgbToHex_value [OF r(1-3)]) (simp_all add: hexPair_def hexDigit_def)
  show "rgbToHex (841 / 4) (1061 / 8) (1437 / 8) = ''#d285b4''"
    by (subst rgbToHex_value [OF r(4-6)]) (simp_all add: hexPair_def hexDigit_def)
  show "rgbToHex (909 / 4) (411 / 2) (1779 / 8) = ''#e3cede''"
    by (subst rgbToHex_value [OF r(7-9)]) (simp_all add: hexPair_def hexDigit_def)
qed

lemma lerpColor_midway:
  "lerpColor ''#ff5005'' ''#7b2cbf'' (7 / 8) = ''#8c31a8''"
  "lerpColor ''#dbba95'' ''#d17db8'' (7 / 8) = ''#d285b4''"
  "lerpColor ''#d0bce1'' ''#e6d0de'' (7 / 8) = ''#e3cede''"
  by (simp_all add: lerpColor_def hexToRgb_table rgbToHex_midway)

text \<open>
  C2, as the code has it. When a \<^verbatim>\<open>gradient-transition\<close> event selects a zone, the
  transition that starts runs from the parameter set that is rendered at that moment to
  the selected entry of the table. With \<open>T = 1 - (1 - min (e / 700) 1) ^ 3\<close> for the elapsed
  time \<open>e\<close> of a step:
  \<^item> \<^verbatim>\<open>GradientBackground.tsx\<close> passes to the renderer \<open>from + (target - from) * T\<close> for each
    of its thirteen numeric parameters (camera zoom, angles and distance, rotation,
    \<^verbatim>\<open>positionX\<close>, field of view, pixel density and the shader's density, speed and
    strength), the target's \<^verbatim>\<open>type\<close>, and three colours that are fixed;
  \<^item> the second variant passes, for each of its three colours, \<^verbatim>\<open>rgbToHex\<close> of
    \<open>c1 + (c2 - c1) * T\<close> for the red, the green and the blue channel \<open>c1\<close> of \<open>from\<close> and
    \<open>c2\<close> of the target as \<^verbatim>\<open>hexToRgb\<close> reads them, and \<open>from + (target - from) * T\<close> for
    \<^verbatim>\<open>positionY\<close>; its camera, rotation and shader values are fixed. At 350 ms of the
    change from zone 0 to zone 4 the three colours are \<^verbatim>\<open>#8c31a8\<close>, \<^verbatim>\<open>#d285b4\<close> and
    \<^verbatim>\<open>#e3cede\<close>, each channel seven eighths of the way and rounded.
\<close>

theorem zone_change_interpolation:
  "map snd (frameCallbacks (handleTransition_zone zi t0 (run_zone evs))) =
     (if zi \<in> {0, 1, 2, 3, 4}
      then [\<lparr>cl_from = gradientProps (run_zone evs), cl_target = ZONE_CONFIGS ! nat \<lfloor>zi\<rfloor>,
             cl_startTime = t0\<rparr>]
      else map snd (frameCallbacks (run_zone evs)))
   \<and> map (map_of (render_zone (gradientProps (step_zone cl now s))))
       [''cameraZoom'', ''cAzimuthAngle'', ''cPolarAngle'', ''cDistance'', ''rotationX'',
        ''rotationY'', ''rotationZ'', ''positionX'', ''fov'', ''pixelDensity'', ''uDensity'',
        ''uSpeed'', ''uStrength''] =
     map (\<lambda>k. Some (Num (k (cl_from cl) + (k (cl_target cl) - k (cl_from cl))
            * (1 - (1 - min ((now - cl_startTime cl) / 700) 1) ^ 3)))) numericKeys
   \<and> map (map_of (render_zone (gradientProps (step_zone cl now s))))
       [''type'', ''color1'', ''color2'', ''color3''] =
     [Some (Str (type_name (type (cl_target cl)))), Some (Str ''#7b2cbf''),
      Some (Str ''#d17db8''), Some (Str ''#e6d0de'')]
   \<and> map snd (frameCallbacks (handleTransition_section zi t0 (run_section evs))) =
     (if zi \<in> {0, 1, 2, 3, 4}
      then [\<lparr>cl_from = gradientProps (run_section evs),
             cl_target = SECTION_CONFIGS ! nat \<lfloor>zi\<rfloor>, cl_startTime = t0\<rparr>]
      else map snd (frameCallbacks (run_section evs)))
   \<and> map (map_of (render_section (gradientProps (step_section cl' now' s'))))
       [''color1'', ''color2'', ''color3'', ''positionY''] =
     (let T = 1 - (1 - min ((now' - cl_startTime cl') / 700) 1) ^ 3
      in [Some (Str (case hexToRgb (color1 (cl_from cl')) of (r1, g1, b1) \<Rightarrow>
                case hexToRgb (color1 (cl_target cl')) of (r2, g2, b2) \<Rightarrow>
                  rgbToHex (r1 + (r2 - r1) * T) (g1 + (g2 - g1) * T) (b1 + (b2 - b1) * T))),
          Some (Str (case hexToRgb (color2 (cl_from cl')) of (r1, g1, b1) \<Rightarrow>
                case hexToRgb (color2 (cl_target cl')) of (r2, g2, b2) \<Rightarrow>
                  rgbToHex (r1 + (r2 - r1) * T) (g1 + (g2 - g1) * T) (b1 + (b2 - b1) * T))),
          Some (Str (case hexToRgb (color3 (cl_from cl')) of (r1, g1, b1) \<Rightarrow>
                case hexToRgb (color3 (cl_target cl')) of (r2, g2, b2) \<Rightarrow>
                  rgbToHex (r1 + (r2 - r1) * T) (g1 + (g2 - g1) * T) (b1 + (b2 - b1) * T))),
          Some (Num (positionY (cl_from cl')
            + (positionY (cl_target cl') - positionY (cl_from cl')) * T))])
   \<and> map (map_of (render_section (gradientProps (step_section cl' now' s'))))
       [''cameraZoom'', ''cAzimuthAngle'', ''cPolarAngle'', ''cDistance'', ''rotationX'',
        ''rotationY'', ''rotationZ'', ''positionX'', ''fov'', ''pixelDensity'', ''uDensity'',
        ''uSpeed'', ''uStrength'', ''type''] =
     [Some (Num (23 / 10)), Some (Num 180), Some (Num 90), Some (Num (36 / 10)), Some (Num 0),
      Some (Num 10), Some (Num 50), Some (Num (- (29 / 10))), Some (Num 45),
      Some (Num (13 / 10)), Some (Num 3), Some (Num (1 / 10)), Some (Num (38 / 10)),
      Some (Str ''sphere'')]
   \<and> map (map_of (render_section (gradientProps
         (run_section [GradientTransition 4 0, AnimationFrame 350]))))
       [''color1'', ''color2'', ''color3''] =
     [Some (Str ''#8c31a8''), Some (Str ''#d285b4''), Some (Str ''#e3cede'')]"
proof -
  note z = run_zone_single_flight [of evs] and s = run_section_single_flight [of evs]
  have cz: "currentRef (run_zone evs) = gradientProps (run_zone evs)"
    using z by (simp add: single_flight_def)
  have cs: "currentRef (run_section evs) = gradientProps (run_section evs)"
    using s by (simp add: single_flight_def)
  have 1: "map snd (frameCallbacks (handleTransition_zone zi t0 (run_zone evs))) =
     (if zi \<in> {0, 1, 2, 3, 4}
      then [\<lparr>cl_from = gradientProps (run_zone evs), cl_target = ZONE_CONFIGS ! nat \<lfloor>zi\<rfloor>,
             cl_startTime = t0\<rparr>]
      else map snd (frameCallbacks (run_zone evs)))"
    by (simp add: handleTransition_zone_def array_get_ZONE_CONFIGS
        animateTo_zone_callbacks(1) [OF z] cz)
  have 2: "map snd (frameCallbacks (handleTransition_section zi t0 (run_section evs))) =
     (if zi \<in> {0, 1, 2, 3, 4}
      then [\<lparr>cl_from = gradientProps (run_section evs),
             cl_target = SECTION_CONFIGS ! nat \<lfloor>zi\<rfloor>, cl_startTime = t0\<rparr>]
      else map snd (frameCallbacks (run_section evs)))"
    by (simp add: handleTransition_section_def array_get_SECTION_CONFIGS
        animateTo_section_callbacks(1) [OF s] cs)
  have 3: "map (\<lambda>k. Some (Num (k (newProps_zone (cl_from cl) (cl_target cl)
        (easeOutCubic_zone (rawT_zone cl now)))))) numericKeys =
     map (\<lambda>k. Some (Num (k (cl_from cl) + (k (cl_target cl) - k (cl_from cl))
            * (1 - (1 - min ((now - cl_startTime cl) / 700) 1) ^ 3)))) numericKeys"
    by (simp add: numericKeys_def newProps_zone_def lerp_zone_def easeOutCubic_zone_def
        rawT_zone_def TRANSITION_DURATION_zone_def)
  have 4: "type (newProps_zone (cl_from cl) (cl_target cl) t) = type (cl_target cl)" for t
    by (simp add: newProps_zone_def)
  have 5: "map (map_of (render_section (gradientProps (step_section cl' now' s'))))
       [''color1'', ''color2'', ''color3'', ''positionY''] =
     (let T = 1 - (1 - min ((now' - cl_startTime cl') / 700) 1) ^ 3
      in [Some (Str (case hexToRgb (color1 (cl_from cl')) of (r1, g1, b1) \<Rightarrow>
                case hexToRgb (color1 (cl_target cl')) of (r2, g2, b2) \<Rightarrow>
                  rgbToHex (r1 + (r2 - r1) * T) (g1 + (g2 - g1) * T) (b1 + (b2 - b1) * T))),
          Some (Str (case hexToRgb (color2 (cl_from cl')) of (r1, g1, b1) \<Rightarrow>
                case hexToRgb (color2 (cl_target cl')) of (r2, g2, b2) \<Rightarrow>
                  rgbToHex (r1 + (r2 - r1) * T) (g1 + (g2 - g1) * T) (b1 + (b2 - b1) * T))),
          Some (Str (case hexToRgb (color3 (cl_from cl')) of (r1, g1, b1) \<Rightarrow>
                case hexToRgb (color3 (cl_target cl')) of (r2, g2, b2) \<Rightarrow>
                  rgbToHex (r1 + (r2 - r1) * T) (g1 + (g2 - g1) * T) (b1 + (b2 - b1) * T))),
          Some (Num (positionY (cl_from cl')
            + (positionY (cl_target cl') - positionY (cl_from cl')) * T))])"
    unfolding step_section_props render_section_tweened
    by (simp add: newProps_section_def lerpColor_def lerp_section_def easeOutCubic_section_def
        rawT_section_def TRANSITION_DURATION_section_def Let_def)
  have e: "easeOutCubic_section (min (350 / 700) 1) = 7 / 8"
    by (simp add: easeOutCubic_section_def power3_eq_cube)
  have 6: "map (map_of (render_section (gradientProps
         (run_section [GradientTransition 4 0, AnimationFrame 350]))))
       [''color1'', ''color2'', ''color3''] =
     [Some (Str ''#8c31a8''), Some (Str ''#d285b4''), Some (Str ''#e3cede'')]"
    unfolding run_section_first_frame e
    by (simp add: render_section_def newProps_section_def SECTION_CONFIGS_def lerpColor_midway)
  have 7: "map (map_of (render_zone (gradientProps (step_zone cl now s))))
       [''cameraZoom'', ''cAzimuthAngle'', ''cPolarAngle'', ''cDistance'', ''rotationX'',
        ''rotationY'', ''rotationZ'', ''positionX'', ''fov'', ''pixelDensity'', ''uDensity'',
        ''uSpeed'', ''uStrength''] =
     map (\<lambda>k. Some (Num (k (cl_from cl) + (k (cl_target cl) - k (cl_from cl))
            * (1 - (1 - min ((now - cl_startTime cl) / 700) 1) ^ 3)))) numericKeys"
    unfolding step_zone_props render_zone_numeric by (rule 3)
  have 8: "map (map_of (render_zone (gradientProps (step_zone cl now s))))
       [''type'', ''color1'', ''color2'', ''color3''] =
     [Some (Str (type_name (type (cl_target cl)))), Some (Str ''#7b2cbf''),
      Some (Str ''#d17db8''), Some (Str ''#e6d0de'')]"
    unfolding step_zone_props render_zone_fixed 4 ..
  show ?thesis
    by (intro conjI 1 7 8 2 5 render_section_fixed 6)
qed

text \<open>
  The claim as it is written fails for \<^verbatim>\<open>GradientBackground.tsx\<close>: during the change from
  zone 0 to zone 4 the three colours it passes to the renderer are the same at the start
  and at the end of the transition, while the camera zoom goes from 5 to 1. It also fails
  for the second variant, which holds the camera angle and the shader strength while its
  first colour goes from that of zone 0 to that of zone 4.
\<close>

theorem colours_interpolated_counterexample:
  "map (map_of (render_zone (gradientProps (run_zone [GradientTransition 4 0, AnimationFrame 0]))))
     [''color1'', ''color2'', ''color3'', ''cameraZoom''] =
     [Some (Str ''#7b2cbf''), Some (Str ''#d17db8''), Some (Str ''#e6d0de''), Some (Num 5)]
   \<and> map (map_of (render_zone (gradientProps
       (run_zone [GradientTransition 4 0, AnimationFrame 700]))))
     [''color1'', ''color2'', ''color3'', ''cameraZoom''] =
     [Some (Str ''#7b2cbf''), Some (Str ''#d17db8''), Some (Str ''#e6d0de''), Some (Num 1)]
   \<and> map (map_of (render_section (gradientProps
       (run_section [GradientTransition 4 0, AnimationFrame 0]))))
     [''cAzimuthAngle'', ''uStrength'', ''color1''] =
     [Some (Num 180), Some (Num (38 / 10)), Some (Str ''#ff5005'')]
   \<and> map (map_of (render_section (gradientProps
       (run_section [GradientTransition 4 0, AnimationFrame 700]))))
     [''cAzimuthAngle'', ''uStrength'', ''color1''] =
     [Some (Num 180), Some (Num (38 / 10)), Some (Str ''#7b2cbf'')]"
proof -
  have e: "easeOutCubic_zone 0 = 0" "easeOutCubic_zone 1 = 1"
    "easeOutCubic_section 0 = 0" "easeOutCubic_section 1 = 1"
    by (simp_all add: easeOutCubic_zone_def easeOutCubic_section_def)
  have z0: "cameraZoom (newProps_zone (ZONE_CONFIGS ! 0) (ZONE_CONFIGS ! 4) 0) = 5"
    and z1: "cameraZoom (newProps_zone (ZONE_CONFIGS ! 0) (ZONE_CONFIGS ! 4) 1) = 1"
    by (simp_all add: newProps_zone_def lerp_zone_def ZONE_CONFIGS_def)
  have w: "wellFormedHex ''#ff5005''" "wellFormedHex ''#7b2cbf''"
    by (simp_all add: wellFormedHex_def isLowerHex_def)
  have c0: "color1 (newProps_section (SECTION_CONFIGS ! 0) (SECTION_CONFIGS ! 4) 0) = ''#ff5005''"
    using lerpColor_zero [OF w(1), of "''#7b2cbf''"]
    by (simp add: newProps_section_def SECTION_CONFIGS_def)
  have c1: "color1 (newProps_section (SECTION_CONFIGS ! 0) (SECTION_CONFIGS ! 4) 1) = ''#7b2cbf''"
    using lerpColor_one [OF w(2), of "''#ff5005''"]
    by (simp add: newProps_section_def SECTION_CONFIGS_def)
  have a: "map (map_of (render_zone p)) [''color1'', ''color2'', ''color3'', ''cameraZoom''] =
     [Some (Str ''#7b2cbf''), Some (Str ''#d17db8''), Some (Str ''#e6d0de''),
      Some (Num (cameraZoom p))]" for p
    by (simp add: render_zone_def)
  have b: "map (map_of (render_section p)) [''cAzimuthAngle'', ''uStrength'', ''color1''] =
     [Some (Num 180), Some (Num (38 / 10)), Some (Str (color1 p))]" for p
    by (simp add: render_section_def)
  show ?thesis
    unfolding a b run_zone_first_frame run_section_first_frame
    by (simp add: e z0 z1 c0 c1)
qed

subsection \<open>Where rounding shows\<close>

lemma binary64_at:
  assumes "2 powi e \<le> \<bar>x\<bar>" "\<bar>x\<bar> < 2 powi (e + 1)"
  shows "binary64 x = of_int (roundTiesToEven (x * 2 powi (52 - e))) * 2 powi (e - 52)"
proof -
  have "0 < (2 :: real) powi e" by simp
  with assms(1) have x: "0 < \<bar>x\<bar>" by linarith
  have "\<lfloor>log 2 \<bar>x\<bar>\<rfloor> = e"
    using floor_log_eq_powr_iff [of "\<bar>x\<bar>" 2 e] x assms
      powr_real_of_int' [of 2 e] powr_real_of_int' [of 2 "e + 1"]
    by simp
  with x show ?thesis
    by (simp add: binary64_def Let_def)
qed

lemma binary64_four_tenths: "binary64 (4 / 10) = 7205759403792794 / 2 ^ 54"
  by (subst binary64_at [where e = "- 2"]) (simp_all add: roundTiesToEven_def power_int_minus)

lemma binary64_one_tenth: "binary64 (1 / 10) = 7205759403792794 / 2 ^ 56"
  by (subst binary64_at [where e = "- 4"]) (simp_all add: roundTiesToEven_def power_int_minus)

lemma binary64_difference:
  "binary64 (7205759403792794 / 2 ^ 56 - 7205759403792794 / 2 ^ 54) =
     - (5404319552844596 / 2 ^ 54)"
  "binary64 (7205759403792794 / 2 ^ 54 - 7205759403792794 / 2 ^ 56) =
     5404319552844596 / 2 ^ 54"
  by (subst binary64_at [where e = "- 2"],
      simp_all add: roundTiesToEven_def power_int_minus)+

lemma binary64_product:
  "binary64 (- (5404319552844596 / 2 ^ 54) * 1) = - (5404319552844596 / 2 ^ 54)"
  "binary64 (5404319552844596 / 2 ^ 54 * 1) = 5404319552844596 / 2 ^ 54"
  by (subst binary64_at [where e = "- 2"],
      simp_all add: roundTiesToEven_def power_int_minus)+

lemma binary64_sum_down:
  "binary64 (7205759403792794 / 2 ^ 54 + - (5404319552844596 / 2 ^ 54)) =
     7205759403792792 / 2 ^ 56"
  by (subst binary64_at [where e = "- 4"]) (simp_all add: roundTiesToEven_def power_int_minus)

lemma binary64_sum_up:
  "binary64 (7205759403792794 / 2 ^ 56 + 5404319552844596 / 2 ^ 54) =
     7205759403792794 / 2 ^ 54"
  by (subst binary64_at [where e = "- 2"]) (simp_all add: roundTiesToEven_def power_int_minus)

lemma uSpeed_table:
  "uSpeed (ZONE_CONFIGS ! 0) = 1 / 10" "uSpeed (ZONE_CONFIGS ! 4) = 4 / 10"
  by (simp_all add: ZONE_CONFIGS_def)

lemma lerp_binary64_uSpeed_down:
  "lerp_binary64 (binary64 (uSpeed (ZONE_CONFIGS ! 4))) (binary64 (uSpeed (ZONE_CONFIGS ! 0)))
     (easeOutCubic_zone 1) = 7205759403792792 / 2 ^ 56"
proof -
  have e: "easeOutCubic_zone 1 = 1" by (simp add: easeOutCubic_zone_def)
  show ?thesis
    unfolding lerp_binary64_def e uSpeed_table binary64_four_tenths binary64_one_tenth
      binary64_difference binary64_product binary64_sum_down ..
qed

lemma lerp_binary64_uSpeed_up:
  "lerp_binary64 (binary64 (uSpeed (ZONE_CONFIGS ! 0))) (binary64 (uSpeed (ZONE_CONFIGS ! 4)))
     (easeOutCubic_zone 1) = binary64 (uSpeed (ZONE_CONFIGS ! 4))"
proof -
  have e: "easeOutCubic_zone 1 = 1" by (simp add: easeOutCubic_zone_def)
  show ?thesis
    unfolding lerp_binary64_def e uSpeed_table binary64_four_tenths binary64_one_tenth
      binary64_difference binary64_product binary64_sum_up ..
qed

text \<open>
  Evaluated in doubles, the last step of a transition does not always land on the target.
  The transition from zone 0 to zone 4 ends with a \<^verbatim>\<open>uSpeed\<close> that is the double of 0.4;
  the transition back from there to zone 0 ends, at \<open>t = 1\<close>, with
  \<open>7205759403792792 / 2 ^ 56\<close> (printed 0.09999999999999998), which is not the double of the
  target's 0.1, \<open>7205759403792794 / 2 ^ 56\<close>.
\<close>

theorem final_value_binary64_counterexample:
  "lerp_binary64 (binary64 (uSpeed (ZONE_CONFIGS ! 0))) (binary64 (uSpeed (ZONE_CONFIGS ! 4)))
     (easeOutCubic_zone 1) = binary64 (uSpeed (ZONE_CONFIGS ! 4))
   \<and> lerp_binary64 (binary64 (uSpeed (ZONE_CONFIGS ! 4))) (binary64 (uSpeed (ZONE_CONFIGS ! 0)))
     (easeOutCubic_zone 1) \<noteq> binary64 (uSpeed (ZONE_CONFIGS ! 0))"
proof -
  have "(7205759403792792 / 2 ^ 56 :: real) \<noteq> binary64 (uSpeed (ZONE_CONFIGS ! 0))"
    unfolding uSpeed_table binary64_one_tenth by simp
  then show ?thesis
    unfolding lerp_binary64_uSpeed_down lerp_binary64_uSpeed_up
    by (intro conjI refl)
qed

text \<open>
  The same value lies below both endpoints of its interpolation, the doubles of 0.4 and
  of 0.1.
\<close>

theorem overshoot_binary64_counterexample:
  "lerp_binary64 (binary64 (uSpeed (ZONE_CONFIGS ! 4))) (binary64 (uSpeed (ZONE_CONFIGS ! 0)))
     (easeOutCubic_zone 1)
   < min (binary64 (uSpeed (ZONE_CONFIGS ! 4))) (binary64 (uSpeed (ZONE_CONFIGS ! 0)))"
proof -
  have "(7205759403792792 / 2 ^ 56 :: real)
      < min (binary64 (uSpeed (ZONE_CONFIGS ! 4))) (binary64 (uSpeed (ZONE_CONFIGS ! 0)))"
    unfolding uSpeed_table binary64_one_tenth binary64_four_tenths by simp
  then show ?thesis
    unfolding lerp_binary64_uSpeed_down .
qed

end
